theory Spec2Isabelle
  imports Complex_Main "HOL-Library.Log_Nat" "HOL-Library.Code_Target_Nat"
begin

section \<open>JavaScript values\<close>

text \<open>
  The analyzers are TypeScript that runs as JavaScript, so the embedding starts with the
  few JavaScript notions the code relies on.

  \<^item> A string is its list of UTF-16 code units (\<open>length\<close>, \<open>padStart\<close> and
    \<open>substring\<close> count code units). ASCII literals are written \<open>js ''...''\<close>; the
    Hebrew column labels are spelled as code units.
  \<^item> A number is \<open>NaN\<close>, an infinity, or a finite double, given by the real it
    denotes; \<open>-0\<close> is \<open>0\<close>. Every operation that can leave the doubles (reading a
    literal, \<open>*\<close>, \<open>-\<close>) rounds its exact result with \<open>double\<close>, so the operations
    take doubles to doubles.
  \<^item> An exception is a value: every function that can throw returns \<open>exn + result\<close>.
    \<open>Error\<close> and \<open>TypeError\<close> carry their message (a \<open>TypeError\<close> raised by the
    engine has the text V8 gives it); \<open>NonError\<close> is a thrown value that is no \<open>Error\<close>
    object, given by what \<open>String\<close> makes of it.
\<close>

type_synonym jsstring = "nat list"

definition js :: "string \<Rightarrow> jsstring" where
  "js s = map of_char s"

datatype jsnum = NaN | PosInf | NegInf | Fin real

datatype jsval = Undefined | Null | Bool bool | Num jsnum | Str jsstring

datatype exn = Error jsstring | TypeError jsstring | NonError jsstring

text \<open>\<open>!v\<close> is \<open>\<not> truthy v\<close>.\<close>

fun truthy :: "jsval \<Rightarrow> bool" where
  "truthy Undefined = False"
| "truthy Null = False"
| "truthy (Bool b) = b"
| "truthy (Num n) = (n \<noteq> NaN \<and> n \<noteq> Fin 0)"
| "truthy (Str s) = (s \<noteq> [])"

subsection \<open>Doubles\<close>

text \<open>
  The Number value of a real (ECMAScript 6.1.6.1, IEEE 754 binary64): the nearest value
  with a significand of 53 bits, ties to the even significand. Below \<open>2^(-1022)\<close> the
  values are spaced by \<open>2^(-1074)\<close>; a result that reaches \<open>2^1024\<close> is an infinity.

  \<open>binary_exponent x\<close> is, for \<open>x > 0\<close>, the \<open>k\<close> with \<open>2^k \<le> x < 2^(k+1)\<close>;
  \<open>bitlen n\<close> is the number of binary digits of \<open>n\<close>.
\<close>

definition round_half_even :: "real \<Rightarrow> int" where
  "round_half_even x =
     (let f = \<lfloor>x\<rfloor>; r = x - of_int f
      in if r < 1 / 2 then f else if 1 / 2 < r then f + 1 else if even f then f else f + 1)"

definition binary_exponent :: "real \<Rightarrow> int" where
  "binary_exponent x =
     (if 1 \<le> x then bitlen \<lfloor>x\<rfloor> - 1 else - bitlen (\<lceil>1 / x\<rceil> - 1))"

definition double :: "real \<Rightarrow> jsnum" where
  "double x =
     (if x = 0 then Fin 0
      else
        (let e = max (binary_exponent \<bar>x\<bar>) (- 1022) - 52;
             y = of_int (round_half_even (x / 2 powi e)) * 2 powi e
         in if 2 ^ 1024 \<le> \<bar>y\<bar> then (if x < 0 then NegInf else PosInf) else Fin y))"

text \<open>\<open>n * c\<close> for a finite non-zero constant \<open>c\<close>.\<close>

fun times_const :: "jsnum \<Rightarrow> real \<Rightarrow> jsnum" where
  "times_const NaN c = NaN"
| "times_const (Fin x) c = double (x * c)"
| "times_const PosInf c = (if 0 < c then PosInf else NegInf)"
| "times_const NegInf c = (if 0 < c then NegInf else PosInf)"

text \<open>\<open>a - b\<close> on numbers.\<close>

fun js_minus :: "jsnum \<Rightarrow> jsnum \<Rightarrow> jsnum" where
  "js_minus (Fin x) (Fin y) = double (x - y)"
| "js_minus NaN b = NaN"
| "js_minus a NaN = NaN"
| "js_minus PosInf PosInf = NaN"
| "js_minus NegInf NegInf = NaN"
| "js_minus PosInf b = PosInf"
| "js_minus NegInf b = NegInf"
| "js_minus (Fin x) PosInf = NegInf"
| "js_minus (Fin x) NegInf = PosInf"

text \<open>
  \<open>Math.floor\<close> and \<open>Math.round\<close> of a double are integers that are doubles again, so
  nothing is rounded a second time.
\<close>

fun math_floor :: "jsnum \<Rightarrow> jsnum" where
  "math_floor (Fin x) = Fin (of_int \<lfloor>x\<rfloor>)"
| "math_floor n = n"

text \<open>\<open>Math.round\<close> rounds half up.\<close>

fun math_round :: "jsnum \<Rightarrow> jsnum" where
  "math_round (Fin x) = Fin (of_int \<lfloor>x + 1 / 2\<rfloor>)"
| "math_round n = n"

text \<open>
  \<open>Number(x.toFixed(0))\<close>: below \<open>10^21\<close> in magnitude \<open>toFixed(0)\<close> prints the nearest
  integer, halves away from zero; from there on it prints the number itself. The integer
  nearest to a double is a double.
\<close>

fun number_of_toFixed0 :: "jsnum \<Rightarrow> jsnum" where
  "number_of_toFixed0 (Fin x) =
     (if \<bar>x\<bar> < 10 ^ 21 then Fin (sgn x * of_int \<lfloor>\<bar>x\<bar> + 1 / 2\<rfloor>) else Fin x)"
| "number_of_toFixed0 n = n"

subsection \<open>Strings\<close>

text \<open>White space and line terminators: what \<open>trim\<close>, \<open>\s\<close> and the number parsers skip.\<close>

definition is_ws :: "nat \<Rightarrow> bool" where
  "is_ws c \<longleftrightarrow>
     c = 9 \<or> c = 10 \<or> c = 11 \<or> c = 12 \<or> c = 13 \<or> c = 32 \<or> c = 160 \<or> c = 5760
     \<or> (8192 \<le> c \<and> c \<le> 8202) \<or> c = 8232 \<or> c = 8233 \<or> c = 8239 \<or> c = 8287
     \<or> c = 12288 \<or> c = 65279"

definition is_digit :: "nat \<Rightarrow> bool" where
  "is_digit c \<longleftrightarrow> 48 \<le> c \<and> c \<le> 57"

definition trim :: "jsstring \<Rightarrow> jsstring" where
  "trim s = rev (dropWhile is_ws (rev (dropWhile is_ws s)))"

definition startsWith :: "jsstring \<Rightarrow> jsstring \<Rightarrow> bool" where
  "startsWith s p \<longleftrightarrow> take (length p) s = p"

definition endsWith :: "jsstring \<Rightarrow> jsstring \<Rightarrow> bool" where
  "endsWith s p \<longleftrightarrow> length p \<le> length s \<and> drop (length s - length p) s = p"

fun includes_str :: "jsstring \<Rightarrow> jsstring \<Rightarrow> bool" where
  "includes_str [] p = (p = [])"
| "includes_str (c # cs) p = (startsWith (c # cs) p \<or> includes_str cs p)"

text \<open>\<open>s.split(sep)\<close> for a separator of one code unit.\<close>

fun split_acc :: "nat \<Rightarrow> jsstring \<Rightarrow> jsstring \<Rightarrow> jsstring list" where
  "split_acc sep cur [] = [rev cur]"
| "split_acc sep cur (c # cs) =
     (if c = sep then rev cur # split_acc sep [] cs else split_acc sep (c # cur) cs)"

definition split :: "jsstring \<Rightarrow> nat \<Rightarrow> jsstring list" where
  "split s sep = split_acc sep [] s"

text \<open>\<open>s.padStart(2, '0')\<close>.\<close>

definition padStart2 :: "jsstring \<Rightarrow> jsstring" where
  "padStart2 s = replicate (2 - length s) 48 @ s"

text \<open>Reading an array out of range gives \<open>undefined\<close>.\<close>

definition nth_opt :: "'a list \<Rightarrow> nat \<Rightarrow> 'a option" where
  "nth_opt xs i = (if i < length xs then Some (xs ! i) else None)"

definition cell :: "jsval list \<Rightarrow> nat \<Rightarrow> jsval" where
  "cell row i = (case nth_opt row i of None \<Rightarrow> Undefined | Some v \<Rightarrow> v)"

subsection \<open>Number parsing\<close>

definition digit_in :: "nat \<Rightarrow> nat \<Rightarrow> nat option" where
  "digit_in radix c =
     (let d = (if 48 \<le> c \<and> c \<le> 57 then Some (c - 48)
               else if 97 \<le> c \<and> c \<le> 122 then Some (c - 87)
               else if 65 \<le> c \<and> c \<le> 90 then Some (c - 55)
               else None)
      in case d of None \<Rightarrow> None | Some v \<Rightarrow> if v < radix then Some v else None)"

definition digits_val :: "nat \<Rightarrow> jsstring \<Rightarrow> nat" where
  "digits_val radix ds = foldl (\<lambda>a c. a * radix + the (digit_in radix c)) 0 ds"

text \<open>
  \<open>parseInt(s)\<close> without a radix: skip leading white space, read a sign, switch to
  radix 16 after \<open>0x\<close>, read the longest run of digits; no digit gives \<open>NaN\<close>. The
  result is the double nearest to the integer read (an engine may read digits after the
  twentieth as \<open>0\<close>; V8 reads them all).
\<close>

definition parseInt :: "jsstring \<Rightarrow> jsnum" where
  "parseInt s =
     (let t = dropWhile is_ws s;
          neg = (t \<noteq> [] \<and> hd t = 45);
          u = (if t \<noteq> [] \<and> (hd t = 43 \<or> hd t = 45) then tl t else t);
          hex = (2 \<le> length u \<and> u ! 0 = 48 \<and> (u ! 1 = 120 \<or> u ! 1 = 88));
          radix = (if hex then 16 else 10);
          v = (if hex then drop 2 u else u);
          ds = takeWhile (\<lambda>c. digit_in radix c \<noteq> None) v
      in if ds = [] then NaN
         else double ((if neg then - 1 else 1) * of_nat (digits_val radix ds)))"

text \<open>
  A decimal literal at the head of a text: a sign, then \<open>Infinity\<close> or digits with an
  optional fraction and exponent. The result is the double nearest to its value, and the
  text after it.
\<close>

definition scale10 :: "real \<Rightarrow> int \<Rightarrow> real" where
  "scale10 x e = (if 0 \<le> e then x * 10 ^ nat e else x / 10 ^ nat (- e))"

definition read_exponent :: "jsstring \<Rightarrow> int \<times> jsstring" where
  "read_exponent r =
     (case r of
        [] \<Rightarrow> (0, r)
      | c # r1 \<Rightarrow>
          if c = 101 \<or> c = 69 then
            (let neg = (r1 \<noteq> [] \<and> hd r1 = 45);
                 r2 = (if r1 \<noteq> [] \<and> (hd r1 = 43 \<or> hd r1 = 45) then tl r1 else r1);
                 ds = takeWhile is_digit r2
             in if ds = [] then (0, r)
                else ((if neg then - 1 else 1) * int (digits_val 10 ds), dropWhile is_digit r2))
          else (0, r))"

definition str_decimal_literal :: "jsstring \<Rightarrow> (jsnum \<times> jsstring) option" where
  "str_decimal_literal t =
     (let neg = (t \<noteq> [] \<and> hd t = 45);
          u = (if t \<noteq> [] \<and> (hd t = 43 \<or> hd t = 45) then tl t else t)
      in if startsWith u (js ''Infinity'') then Some (if neg then NegInf else PosInf, drop 8 u)
         else
           (let ip = takeWhile is_digit u;
                r1 = dropWhile is_digit u;
                has_dot = (r1 \<noteq> [] \<and> hd r1 = 46);
                fp = (if has_dot then takeWhile is_digit (tl r1) else []);
                r2 = (if has_dot then dropWhile is_digit (tl r1) else r1)
            in if ip = [] \<and> fp = [] then None
               else Some (double ((if neg then - 1 else 1)
                            * scale10 (of_nat (digits_val 10 (ip @ fp)) / 10 ^ length fp)
                                (fst (read_exponent r2))),
                          snd (read_exponent r2))))"

text \<open>\<open>parseFloat(s)\<close>: skip leading white space, read the longest literal prefix.\<close>

definition parseFloat :: "jsstring \<Rightarrow> jsnum" where
  "parseFloat s =
     (case str_decimal_literal (dropWhile is_ws s) of None \<Rightarrow> NaN | Some (v, r) \<Rightarrow> v)"

text \<open>
  \<open>Number(s)\<close> on a string: trim both ends; the empty text is \<open>0\<close>; otherwise the
  whole text must be one literal, decimal or \<open>0x\<close>, \<open>0o\<close>, \<open>0b\<close> integer.
\<close>

definition radix_prefix :: "jsstring \<Rightarrow> nat option" where
  "radix_prefix t =
     (if 2 \<le> length t \<and> t ! 0 = 48 then
        (if t ! 1 = 120 \<or> t ! 1 = 88 then Some 16
         else if t ! 1 = 111 \<or> t ! 1 = 79 then Some 8
         else if t ! 1 = 98 \<or> t ! 1 = 66 then Some 2
         else None)
      else None)"

definition js_Number :: "jsstring \<Rightarrow> jsnum" where
  "js_Number s =
     (let t = trim s
      in if t = [] then Fin 0
         else case radix_prefix t of
           Some radix \<Rightarrow>
             (let ds = drop 2 t
              in if ds \<noteq> [] \<and> list_all (\<lambda>c. digit_in radix c \<noteq> None) ds
                 then double (of_nat (digits_val radix ds)) else NaN)
         | None \<Rightarrow>
             (case str_decimal_literal t of
                None \<Rightarrow> NaN
              | Some (v, r) \<Rightarrow> if r = [] then v else NaN))"

text \<open>\<open>ToNumber\<close>, the conversion of the operands of \<open>-\<close> and \<open>*\<close>.\<close>

fun to_number :: "jsval \<Rightarrow> jsnum" where
  "to_number Undefined = NaN"
| "to_number Null = Fin 0"
| "to_number (Bool b) = Fin (if b then 1 else 0)"
| "to_number (Num n) = n"
| "to_number (Str s) = js_Number s"

text \<open>
  \<open>String(v)\<close>. Printing a number is left to the parameter \<open>numstr\<close>: the shortest
  decimal that reads back as the same double is outside this model.
\<close>

fun to_string :: "(jsnum \<Rightarrow> jsstring) \<Rightarrow> jsval \<Rightarrow> jsstring" where
  "to_string numstr Undefined = js ''undefined''"
| "to_string numstr Null = js ''null''"
| "to_string numstr (Bool b) = (if b then js ''true'' else js ''false'')"
| "to_string numstr (Num n) = numstr n"
| "to_string numstr (Str s) = s"

text \<open>Running fallible steps in order: the first exception ends the run.\<close>

fun sequence_sum :: "(exn + 'a) list \<Rightarrow> exn + 'a list" where
  "sequence_sum [] = Inr []"
| "sequence_sum (x # xs) =
     (case x of
        Inl e \<Rightarrow> Inl e
      | Inr v \<Rightarrow> (case sequence_sum xs of Inl e \<Rightarrow> Inl e | Inr vs \<Rightarrow> Inr (v # vs)))"

section \<open>Field mappings\<close>

text \<open>
  \<open>FieldMapping\<close> of \<open>fileAnalyzer.ts\<close>: a source column label, a target field and
  an optional transform. The targets used by the analyzers are the four fields of a
  transaction. A transformed row maps each target to its value, \<open>Undefined\<close> when the
  property was never written.
\<close>

datatype target = Date | Payee_name | Amount | Memo

record FieldMapping =
  source :: jsstring
  target :: target
  transform :: "(jsval \<Rightarrow> exn + jsval) option"

type_synonym raw_row = "(jsstring \<times> jsval) list"
type_synonym transformed_row = "target \<Rightarrow> jsval"

text \<open>\<open>row[key]\<close>: a property that is absent reads as \<open>undefined\<close>.\<close>

definition get_prop :: "raw_row \<Rightarrow> jsstring \<Rightarrow> jsval" where
  "get_prop row key = (case map_of row key of None \<Rightarrow> Undefined | Some v \<Rightarrow> v)"

definition apply_transform :: "FieldMapping \<Rightarrow> jsval \<Rightarrow> exn + jsval" where
  "apply_transform m v = (case transform m of None \<Rightarrow> Inr v | Some f \<Rightarrow> f v)"

definition empty_row :: transformed_row where
  "empty_row = (\<lambda>_. Undefined)"

text \<open>
  The mapping loop shared by the Poalim, Isracard and Max analyzers:
  \<^verbatim>\<open>
  MAPPINGS.forEach((mapping) => {
    const value = row[mapping.source];
    if (value !== undefined && !transformedRow[mapping.target]) {
      transformedRow[mapping.target] = mapping.transform ? mapping.transform(value) : value;
    }
  });\<close>
\<close>

fun map_first_writer :: "FieldMapping list \<Rightarrow> raw_row \<Rightarrow> transformed_row \<Rightarrow> exn + transformed_row" where
  "map_first_writer [] row acc = Inr acc"
| "map_first_writer (m # ms) row acc =
     (let v = get_prop row (source m)
      in if v \<noteq> Undefined \<and> \<not> truthy (acc (target m)) then
           (case apply_transform m v of
              Inl e \<Rightarrow> Inl e
            | Inr w \<Rightarrow> map_first_writer ms row (acc(target m := w)))
         else map_first_writer ms row acc)"

section \<open>Bank Hapoalim (\<open>poalimAnalyzer.ts\<close>)\<close>

definition he_date :: jsstring where
  "he_date = [1514, 1488, 1512, 1497, 1498]"

definition he_action :: jsstring where
  "he_action = [1514, 1497, 1488, 1493, 1512, 32, 1492, 1508, 1506, 1493, 1500, 1492]"

definition he_details :: jsstring where
  "he_details = [1508, 1512, 1496, 1497, 1501]"

definition he_debit :: jsstring where
  "he_debit = [1495, 1493, 1489, 1492]"

definition he_credit :: jsstring where
  "he_credit = [1494, 1499, 1493, 1514]"

definition type_error_replace :: exn where
  "type_error_replace = TypeError (js ''value.replace is not a function'')"

text \<open>
  \<^verbatim>\<open>
  transform: (value: string) => {
    if (!value) return null;
    const num = parseInt(value.replace('.', ''));
    return isNaN(num) ? null : num * -10;
  }\<close>
  \<open>replace\<close> with a string pattern removes the first dot only. The credit transform is
  the same with \<open>num * 10\<close>.
\<close>

definition poalim_amount :: "real \<Rightarrow> jsval \<Rightarrow> exn + jsval" where
  "poalim_amount factor v =
     (if \<not> truthy v then Inr Null
      else case v of
        Str s \<Rightarrow>
          (let num = parseInt (remove1 46 s)
           in Inr (if num = NaN then Null else Num (times_const num factor)))
      | _ \<Rightarrow> Inl type_error_replace)"

definition poalim_debit_transform :: "jsval \<Rightarrow> exn + jsval" where
  "poalim_debit_transform = poalim_amount (- 10)"

definition poalim_credit_transform :: "jsval \<Rightarrow> exn + jsval" where
  "poalim_credit_transform = poalim_amount 10"

definition POALIM_FIELD_MAPPINGS :: "FieldMapping list" where
  "POALIM_FIELD_MAPPINGS =
     [\<lparr>source = he_date, target = Date, transform = None\<rparr>,
      \<lparr>source = he_action, target = Payee_name, transform = None\<rparr>,
      \<lparr>source = he_details, target = Memo, transform = None\<rparr>,
      \<lparr>source = he_debit, target = Amount, transform = Some poalim_debit_transform\<rparr>,
      \<lparr>source = he_credit, target = Amount, transform = Some poalim_credit_transform\<rparr>]"

text \<open>The row transform of \<open>analyzePoalimFile\<close>: the loop above from an empty object.\<close>

definition poalim_transform_row :: "raw_row \<Rightarrow> exn + transformed_row" where
  "poalim_transform_row row = map_first_writer POALIM_FIELD_MAPPINGS row empty_row"

text \<open>Reading one field of a transformed row, when the transform did not throw.\<close>

definition field_of :: "target \<Rightarrow> exn + transformed_row \<Rightarrow> exn + jsval" where
  "field_of t res = (case res of Inl e \<Rightarrow> Inl e | Inr r \<Rightarrow> Inr (r t))"

text \<open>The two rows of the analyzer's own test: a salary credited, a purchase debited.\<close>

definition poalim_credit_row :: raw_row where
  "poalim_credit_row =
     [(he_date, Str (js ''01/05/2025'')), (he_debit, Str []), (he_credit, Str (js ''5000''))]"

definition poalim_debit_row :: raw_row where
  "poalim_debit_row =
     [(he_date, Str (js ''05/05/2025'')), (he_debit, Str (js ''200'')), (he_credit, Str [])]"

text \<open>
  Two rows of the test ``should correctly transform amount fields'', whose cells are
  written with a dot: the test expects \<open>-10000\<close> and \<open>25000\<close>.
\<close>

definition poalim_dotted_debit_row :: raw_row where
  "poalim_dotted_debit_row =
     [(he_date, Str (js ''01/05/2025'')), (he_debit, Str (js ''1.000'')), (he_credit, Str [])]"

definition poalim_dotted_credit_row :: raw_row where
  "poalim_dotted_credit_row =
     [(he_date, Str (js ''02/05/2025'')), (he_debit, Str []), (he_credit, Str (js ''2.500''))]"

section \<open>Date transforms\<close>

text \<open>
  Each vendor's mapping for the date column has its own transform. They share the
  destructuring \<open>const [day, month, year] = value.split(sep)\<close>, where a missing component
  is \<open>undefined\<close>, and the template that prints \<open>undefined\<close> for it.
\<close>

definition template_part :: "jsstring option \<Rightarrow> jsstring" where
  "template_part p = (case p of None \<Rightarrow> js ''undefined'' | Some s \<Rightarrow> s)"

definition type_error_padStart :: exn where
  "type_error_padStart =
     TypeError (js ''Cannot read properties of undefined (reading 'padStart')'')"

text \<open>\<open>x.padStart(2, '0')\<close> on a component that may be \<open>undefined\<close>.\<close>

definition pad_component :: "jsstring option \<Rightarrow> exn + jsstring" where
  "pad_component p = (case p of None \<Rightarrow> Inl type_error_padStart | Some s \<Rightarrow> Inr (padStart2 s))"

text \<open>The template \<open>`${y}-${month.padStart(2, '0')}-${day.padStart(2, '0')}`\<close>.\<close>

definition iso_template :: "jsstring \<Rightarrow> jsstring option \<Rightarrow> jsstring option \<Rightarrow> exn + jsval" where
  "iso_template y month day =
     (case pad_component month of
        Inl e \<Rightarrow> Inl e
      | Inr m \<Rightarrow>
          (case pad_component day of
             Inl e \<Rightarrow> Inl e
           | Inr d \<Rightarrow> Inr (Str (y @ js ''-'' @ m @ js ''-'' @ d))))"

text \<open>
  Isracard (\<open>isracardAnalyzer.ts\<close>):
  \<^verbatim>\<open>
  if (!value || typeof value !== 'string' || !value.includes('/')) return value;
  const [day, month, year] = value.split('/');
  return `${year}-${month.padStart(2, '0')}-${day.padStart(2, '0')}`;\<close>
\<close>

definition isracard_date_transform :: "jsval \<Rightarrow> exn + jsval" where
  "isracard_date_transform v =
     (case v of
        Str s \<Rightarrow>
          if s = [] \<or> 47 \<notin> set s then Inr v
          else (let ps = split s 47
                in iso_template (template_part (nth_opt ps 2)) (nth_opt ps 1) (nth_opt ps 0))
      | _ \<Rightarrow> Inr v)"

text \<open>Max (\<open>maxAnalyzer.ts\<close>): the same with \<open>'-'\<close> as the separator.\<close>

definition max_date_transform :: "jsval \<Rightarrow> exn + jsval" where
  "max_date_transform v =
     (case v of
        Str s \<Rightarrow>
          if s = [] \<or> 45 \<notin> set s then Inr v
          else (let ps = split s 45
                in iso_template (template_part (nth_opt ps 2)) (nth_opt ps 1) (nth_opt ps 0))
      | _ \<Rightarrow> Inr v)"

text \<open>
  Cal (\<open>calAnalyzer.ts\<close>):
  \<^verbatim>\<open>
  if (!value || typeof value !== 'string' || !value.includes('/')) return value;
  const [day, month, year] = value.split('/');
  if (!day || !month || !year) return value;
  return `20${year}-${month.padStart(2, '0')}-${day.padStart(2, '0')}`;\<close>
\<close>

definition missing :: "jsstring option \<Rightarrow> bool" where
  "missing p \<longleftrightarrow> (case p of None \<Rightarrow> True | Some s \<Rightarrow> s = [])"

definition cal_date_transform :: "jsval \<Rightarrow> exn + jsval" where
  "cal_date_transform v =
     (case v of
        Str s \<Rightarrow>
          if s = [] \<or> 47 \<notin> set s then Inr v
          else (let ps = split s 47
                in if missing (nth_opt ps 0) \<or> missing (nth_opt ps 1) \<or> missing (nth_opt ps 2)
                   then Inr v
                   else iso_template (js ''20'' @ template_part (nth_opt ps 2))
                          (nth_opt ps 1) (nth_opt ps 0))
      | _ \<Rightarrow> Inr v)"

text \<open>
  Mizrahi Tfahot (\<open>mizrahiTfahotAnalyzer.ts\<close>): no check of the components, the
  value trimmed before the split, and \<open>20\<close> before the year.
\<close>

definition mizrahi_date_transform :: "jsval \<Rightarrow> exn + jsval" where
  "mizrahi_date_transform v =
     (case v of
        Str s \<Rightarrow>
          if s = [] \<or> 47 \<notin> set s then Inr v
          else (let ps = split (trim s) 47
                in iso_template (js ''20'' @ template_part (nth_opt ps 2))
                     (nth_opt ps 1) (nth_opt ps 0))
      | _ \<Rightarrow> Inr v)"

section \<open>Mizrahi Tfahot (\<open>mizrahiTfahotAnalyzer.ts\<close>)\<close>

definition he_txn_type :: jsstring where
  "he_txn_type = [1505, 1493, 1490, 32, 1514, 1504, 1493, 1506, 1492]"

definition he_ref :: jsstring where
  "he_ref = [1488, 1505, 1502, 1499, 1514, 1488]"

definition type_error_trim :: exn where
  "type_error_trim = TypeError (js ''value.trim is not a function'')"

text \<open>
  \<^verbatim>\<open>
  transform: (value: string) => {
    if (!value || value.trim() === '' || value.trim() === '&nbsp;') return 0;
    const numericValue = Number(value.toString().trim().replace(/,/g, ''));
    return Number((numericValue * -1000).toFixed(0));
  }\<close>
  The credit transform multiplies by \<open>1000\<close> instead.
\<close>

definition mizrahi_amount :: "real \<Rightarrow> jsval \<Rightarrow> exn + jsval" where
  "mizrahi_amount factor v =
     (if \<not> truthy v then Inr (Num (Fin 0))
      else case v of
        Str s \<Rightarrow>
          if trim s = [] \<or> trim s = js ''&nbsp;'' then Inr (Num (Fin 0))
          else Inr (Num (number_of_toFixed0
                 (times_const (js_Number (filter (\<lambda>c. c \<noteq> 44) (trim s))) factor)))
      | _ \<Rightarrow> Inl type_error_trim)"

definition mizrahi_debit_transform :: "jsval \<Rightarrow> exn + jsval" where
  "mizrahi_debit_transform = mizrahi_amount (- 1000)"

definition mizrahi_credit_transform :: "jsval \<Rightarrow> exn + jsval" where
  "mizrahi_credit_transform = mizrahi_amount 1000"

definition MIZRAHI_TFAHOT_FIELD_MAPPINGS :: "FieldMapping list" where
  "MIZRAHI_TFAHOT_FIELD_MAPPINGS =
     [\<lparr>source = he_date, target = Date, transform = Some mizrahi_date_transform\<rparr>,
      \<lparr>source = he_txn_type, target = Payee_name, transform = None\<rparr>,
      \<lparr>source = he_debit, target = Amount, transform = Some mizrahi_debit_transform\<rparr>,
      \<lparr>source = he_credit, target = Amount, transform = Some mizrahi_credit_transform\<rparr>,
      \<lparr>source = he_ref, target = Memo, transform = None\<rparr>]"

text \<open>
  \<open>transformTransactions\<close>, one row. The flags are
  \<open>row[c] && String(row[c]).trim() !== ''\<close>, used for their truth value.
\<close>

definition has_value :: "(jsnum \<Rightarrow> jsstring) \<Rightarrow> jsval \<Rightarrow> bool" where
  "has_value numstr v \<longleftrightarrow> truthy v \<and> trim (to_string numstr v) \<noteq> []"

text \<open>
  \<^verbatim>\<open>
  MIZRAHI_TFAHOT_FIELD_MAPPINGS.forEach((mapping) => {
    if (mapping.source === credit && hasDebit && !hasCredit) return;
    if (mapping.source === debit && hasCredit && !hasDebit) return;
    const value = row[mapping.source];
    if (value !== undefined) {
      transaction[mapping.target] = mapping.transform ? mapping.transform(String(value)) : value;
    }
  });\<close>
\<close>

fun mizrahi_apply ::
  "(jsnum \<Rightarrow> jsstring) \<Rightarrow> bool \<Rightarrow> bool \<Rightarrow> FieldMapping list \<Rightarrow> raw_row \<Rightarrow> transformed_row
     \<Rightarrow> exn + transformed_row" where
  "mizrahi_apply numstr hasCredit hasDebit [] row acc = Inr acc"
| "mizrahi_apply numstr hasCredit hasDebit (m # ms) row acc =
     (if source m = he_credit \<and> hasDebit \<and> \<not> hasCredit
        then mizrahi_apply numstr hasCredit hasDebit ms row acc
      else if source m = he_debit \<and> hasCredit \<and> \<not> hasDebit
        then mizrahi_apply numstr hasCredit hasDebit ms row acc
      else
        (let v = get_prop row (source m)
         in if v \<noteq> Undefined then
              (case (case transform m of
                       None \<Rightarrow> Inr v
                     | Some f \<Rightarrow> f (Str (to_string numstr v))) of
                 Inl e \<Rightarrow> Inl e
               | Inr w \<Rightarrow> mizrahi_apply numstr hasCredit hasDebit ms row (acc(target m := w)))
            else mizrahi_apply numstr hasCredit hasDebit ms row acc))"

text \<open>
  The step after the loop:
  \<^verbatim>\<open>
  if (transaction.amount === 0 && hasCredit) {
    const creditMapping = MIZRAHI_TFAHOT_FIELD_MAPPINGS.find((m) => m.source === credit);
    if (creditMapping && creditMapping.transform)
      transaction.amount = creditMapping.transform(String(row[credit]));
  } else if (transaction.amount === 0 && hasDebit) { ... the same with debit ... }\<close>
\<close>

definition mizrahi_refill ::
  "(jsnum \<Rightarrow> jsstring) \<Rightarrow> jsstring \<Rightarrow> raw_row \<Rightarrow> transformed_row \<Rightarrow> exn + transformed_row" where
  "mizrahi_refill numstr col row t =
     (case find (\<lambda>m. source m = col) MIZRAHI_TFAHOT_FIELD_MAPPINGS of
        None \<Rightarrow> Inr t
      | Some m \<Rightarrow>
          (case transform m of
             None \<Rightarrow> Inr t
           | Some f \<Rightarrow>
               (case f (Str (to_string numstr (get_prop row col))) of
                  Inl e \<Rightarrow> Inl e
                | Inr w \<Rightarrow> Inr (t(Amount := w)))))"

definition mizrahi_initial :: transformed_row where
  "mizrahi_initial = (\<lambda>t. case t of Amount \<Rightarrow> Num (Fin 0) | _ \<Rightarrow> Str [])"

definition mizrahi_transform_row :: "(jsnum \<Rightarrow> jsstring) \<Rightarrow> raw_row \<Rightarrow> exn + transformed_row" where
  "mizrahi_transform_row numstr row =
     (let hasCredit = has_value numstr (get_prop row he_credit);
          hasDebit = has_value numstr (get_prop row he_debit)
      in case mizrahi_apply numstr hasCredit hasDebit MIZRAHI_TFAHOT_FIELD_MAPPINGS row
                mizrahi_initial of
           Inl e \<Rightarrow> Inl e
         | Inr t \<Rightarrow>
             if t Amount = Num (Fin 0) \<and> hasCredit then mizrahi_refill numstr he_credit row t
             else if t Amount = Num (Fin 0) \<and> hasDebit then mizrahi_refill numstr he_debit row t
             else Inr t)"

text \<open>
  \<open>transformTransactions\<close>: entries that are \<open>null\<close> or not objects (\<open>None\<close> here) are
  filtered out, the others are transformed in order.
\<close>

definition transformTransactions ::
  "(jsnum \<Rightarrow> jsstring) \<Rightarrow> raw_row option list \<Rightarrow> exn + transformed_row list" where
  "transformTransactions numstr rows =
     sequence_sum (map (mizrahi_transform_row numstr) (List.map_filter (\<lambda>r. r) rows))"

text \<open>The row of the analyzer's test with both columns filled; its cells are all strings.\<close>

definition mizrahi_both_row :: raw_row where
  "mizrahi_both_row =
     [(he_date, Str (js ''01/05/25'')), (he_debit, Str (js ''300'')),
      (he_credit, Str (js ''500'')), (he_ref, Str (js ''12345''))]"

definition mizrahi_debit_row :: raw_row where
  "mizrahi_debit_row =
     [(he_date, Str (js ''10/05/25'')), (he_debit, Str (js ''500'')),
      (he_credit, Str []), (he_ref, Str (js ''67890''))]"

definition print_nothing :: "jsnum \<Rightarrow> jsstring" where
  "print_nothing n = []"

section \<open>Cal (\<open>calAnalyzer.ts\<close>)\<close>

definition he_txn_date :: jsstring where
  "he_txn_date = [1514, 1488, 1512, 1497, 1498, 32, 1506, 1505, 1511, 1492]"

definition he_merchant :: jsstring where
  "he_merchant = [1513, 1501, 32, 1489, 1497, 1514, 32, 1506, 1505, 1511]"

definition he_charge :: jsstring where
  "he_charge = [1505, 1499, 1493, 1501, 32, 1495, 1497, 1493, 1489]"

definition he_notes :: jsstring where
  "he_notes = [1492, 1506, 1512, 1493, 1514]"

text \<open>The sentinel a Cal sheet shows in place of an amount (``not a number'').\<close>

definition he_not_number :: jsstring where
  "he_not_number = [1500, 1488, 32, 1502, 1505, 1508, 1512]"

text \<open>\<open>s.replace(/[...\s,]/g, '')\<close>: the shekel sign is U+20AA.\<close>

definition strip_currency :: "jsstring \<Rightarrow> jsstring" where
  "strip_currency s = filter (\<lambda>c. c \<noteq> 8362 \<and> \<not> is_ws c \<and> c \<noteq> 44) s"

text \<open>
  \<^verbatim>\<open>
  transform: (value: string) => {
    if (value === undefined || value === null || value === '') return 0;
    const stringValue = String(value);
    if (stringValue === NOT_A_NUMBER) return null;
    const cleanValue = stringValue.replace(/[...]/g, '');
    const num = parseFloat(cleanValue);
    if (isNaN(num)) return null;
    return Math.floor(num * -1000);
  }\<close>
\<close>

definition cal_amount_transform :: "(jsnum \<Rightarrow> jsstring) \<Rightarrow> jsval \<Rightarrow> exn + jsval" where
  "cal_amount_transform numstr v =
     (if v = Undefined \<or> v = Null \<or> v = Str [] then Inr (Num (Fin 0))
      else
        (let stringValue = to_string numstr v
         in if stringValue = he_not_number then Inr Null
            else
              (let num = parseFloat (strip_currency stringValue)
               in if num = NaN then Inr Null
                  else Inr (Num (math_floor (times_const num (- 1000)))))))"

definition CAL_FIELD_MAPPINGS :: "(jsnum \<Rightarrow> jsstring) \<Rightarrow> FieldMapping list" where
  "CAL_FIELD_MAPPINGS numstr =
     [\<lparr>source = he_txn_date, target = Date, transform = Some cal_date_transform\<rparr>,
      \<lparr>source = he_merchant, target = Payee_name, transform = None\<rparr>,
      \<lparr>source = he_charge, target = Amount, transform = Some (cal_amount_transform numstr)\<rparr>,
      \<lparr>source = he_notes, target = Memo, transform = None\<rparr>]"

text \<open>
  \<open>normalizeHeaderString\<close>: \<open>header ? header.replace(/[\n\r]+/g, ' ').trim() : header\<close>.
  The flag of \<open>collapse_breaks\<close> says that the previous code unit was a line break.
\<close>

fun collapse_breaks :: "bool \<Rightarrow> jsstring \<Rightarrow> jsstring" where
  "collapse_breaks b [] = []"
| "collapse_breaks b (c # cs) =
     (if c = 10 \<or> c = 13 then (if b then collapse_breaks True cs else 32 # collapse_breaks True cs)
      else c # collapse_breaks False cs)"

definition normalizeHeaderString :: "jsstring \<Rightarrow> jsstring" where
  "normalizeHeaderString header = (if header = [] then header else trim (collapse_breaks False header))"

text \<open>
  \<open>headerMapping\<close> is a \<open>Map\<close> from the normalized source to its mapping; of two
  mappings with one key the later one stays.
\<close>

definition headerMapping_get :: "(jsnum \<Rightarrow> jsstring) \<Rightarrow> jsstring \<Rightarrow> FieldMapping option" where
  "headerMapping_get numstr key =
     find (\<lambda>m. normalizeHeaderString (source m) = key) (rev (CAL_FIELD_MAPPINGS numstr))"

text \<open>
  The transform stage of \<open>analyzeCalFile\<close>. A raw row is given by its entries, in the
  order of \<open>Object.entries\<close>:
  \<^verbatim>\<open>
  Object.entries(row).forEach(([key, value]) => {
    const mapping = headerMapping.get(normalizeHeaderString(key));
    if (mapping) {
      transformedRow[mapping.target] = mapping.transform ? mapping.transform(value) : value;
    }
  });
  if (!transformedRow.memo) transformedRow.memo = '';
  // Don't filter out transactions with null amounts, as they may be handled by the consumer
  return transformedRow;\<close>
\<close>

fun cal_apply :: "(jsnum \<Rightarrow> jsstring) \<Rightarrow> raw_row \<Rightarrow> transformed_row \<Rightarrow> exn + transformed_row" where
  "cal_apply numstr [] acc = Inr acc"
| "cal_apply numstr ((key, v) # es) acc =
     (case headerMapping_get numstr (normalizeHeaderString key) of
        None \<Rightarrow> cal_apply numstr es acc
      | Some m \<Rightarrow>
          (case apply_transform m v of
             Inl e \<Rightarrow> Inl e
           | Inr w \<Rightarrow> cal_apply numstr es (acc(target m := w))))"

definition cal_initial :: transformed_row where
  "cal_initial = (\<lambda>t. case t of Amount \<Rightarrow> Num (Fin 0) | _ \<Rightarrow> Str [])"

definition cal_transform_row :: "(jsnum \<Rightarrow> jsstring) \<Rightarrow> raw_row \<Rightarrow> exn + transformed_row" where
  "cal_transform_row numstr row =
     (case cal_apply numstr row cal_initial of
        Inl e \<Rightarrow> Inl e
      | Inr t \<Rightarrow> Inr (if truthy (t Memo) then t else t(Memo := Str [])))"

definition cal_transform_rows :: "(jsnum \<Rightarrow> jsstring) \<Rightarrow> raw_row list \<Rightarrow> exn + transformed_row list" where
  "cal_transform_rows numstr rows = sequence_sum (map (cal_transform_row numstr) rows)"

text \<open>The amounts of a list of transformed rows.\<close>

definition amounts_of :: "exn + transformed_row list \<Rightarrow> exn + jsval list" where
  "amounts_of res = (case res of Inl e \<Rightarrow> Inl e | Inr ts \<Rightarrow> Inr (map (\<lambda>t. t Amount) ts))"

text \<open>The three raw rows of the Cal test ``should filter out invalid transactions''.\<close>

definition cal_test_rows :: "raw_row list" where
  "cal_test_rows =
     [[(he_txn_date, Str (js ''10/04/25'')), (he_merchant, Str (js ''A'')), (he_charge, Str (js ''100''))],
      [(he_txn_date, Str (js ''12/04/25'')), (he_merchant, Str (js ''B'')), (he_charge, Str he_not_number)],
      [(he_txn_date, Str (js ''13/04/25'')), (he_merchant, Str (js ''C'')), (he_charge, Str (js ''30''))]]"

section \<open>Max (\<open>maxAnalyzer.ts\<close>)\<close>

definition he_max_merchant :: jsstring where
  "he_max_merchant = [1513, 1501, 32, 1489, 1497, 1514, 32, 1492, 1506, 1505, 1511]"

text \<open>
  \<^verbatim>\<open>
  transform: (value: any) => {
    if (!value) return null;
    if (typeof value === 'string') {
      const cleanValue = value.replace(/[...]/g, '');
      const num = parseFloat(cleanValue);
      return isNaN(num) ? null : Math.floor(num * -1000);
    }
    if (typeof value === 'number') return Math.round(value * -1000);
    return null;
  }\<close>
\<close>

definition max_amount_transform :: "jsval \<Rightarrow> exn + jsval" where
  "max_amount_transform v =
     (if \<not> truthy v then Inr Null
      else case v of
        Str s \<Rightarrow>
          (let num = parseFloat (strip_currency s)
           in Inr (if num = NaN then Null else Num (math_floor (times_const num (- 1000)))))
      | Num n \<Rightarrow> Inr (Num (math_round (times_const n (- 1000))))
      | _ \<Rightarrow> Inr Null)"

definition MAX_FIELD_MAPPINGS :: "FieldMapping list" where
  "MAX_FIELD_MAPPINGS =
     [\<lparr>source = he_txn_date, target = Date, transform = Some max_date_transform\<rparr>,
      \<lparr>source = he_max_merchant, target = Payee_name, transform = None\<rparr>,
      \<lparr>source = he_charge, target = Amount, transform = Some max_amount_transform\<rparr>,
      \<lparr>source = he_notes, target = Memo, transform = None\<rparr>]"

text \<open>The global \<open>isNaN(v)\<close> converts with \<open>Number\<close> first.\<close>

fun js_isNaN :: "jsval \<Rightarrow> bool" where
  "js_isNaN Undefined = True"
| "js_isNaN Null = False"
| "js_isNaN (Bool b) = False"
| "js_isNaN (Num n) = (n = NaN)"
| "js_isNaN (Str s) = (js_Number s = NaN)"

text \<open>
  The transform stage of \<open>processMaxSheet\<close>: the first-writer loop, then
  \<open>if (isNaN(transformedRow.amount)) return null\<close> and \<open>.filter(row => row !== null)\<close>.
\<close>

definition max_transform_row :: "raw_row \<Rightarrow> exn + transformed_row option" where
  "max_transform_row row =
     (case map_first_writer MAX_FIELD_MAPPINGS row empty_row of
        Inl e \<Rightarrow> Inl e
      | Inr t \<Rightarrow> Inr (if js_isNaN (t Amount) then None else Some t))"

definition max_transform_rows :: "raw_row list \<Rightarrow> exn + transformed_row list" where
  "max_transform_rows rows =
     (case sequence_sum (map max_transform_row rows) of
        Inl e \<Rightarrow> Inl e
      | Inr ts \<Rightarrow> Inr (List.map_filter (\<lambda>t. t) ts))"

definition max_test_rows :: "raw_row list" where
  "max_test_rows =
     [[(he_txn_date, Str (js ''10-04-2025'')), (he_max_merchant, Str (js ''A'')), (he_charge, Num (Fin 100))],
      [(he_txn_date, Str (js ''12-04-2025'')), (he_max_merchant, Str (js ''B'')), (he_charge, Str he_not_number)],
      [(he_txn_date, Str (js ''13-04-2025'')), (he_max_merchant, Str (js ''C'')), (he_charge, Num (Fin 30))]]"

section \<open>Balance reconciliation (\<open>AccountBalancesReport\<close>)\<close>

text \<open>
  A property that may be missing: \<open>undefined\<close>, \<open>null\<close> or a value.
\<close>

datatype 'a optional = Absent | IsNull | Present 'a

text \<open>
  An account of the report: the numbers of the ledger, which are finite, and
  \<open>fileBalance\<close>, declared \<open>fileBalance?: number\<close>. What is stored there is
  \<open>analysis?.finalBalance || analysis?.data?.finalBalance\<close>, whatever the analyzer
  returned: a number, \<open>undefined\<close>, \<open>null\<close> (Poalim, when the last row has no
  balance), \<open>NaN\<close>, or the text of a cell (Mizrahi Tfahot's \<open>B1\<close>).
\<close>

record Account =
  accountName :: jsstring
  balance :: real
  cleared_balance :: real
  fileBalance :: jsval

definition missing_note :: jsstring where
  "missing_note = js ''Missing transactions in YNAB''"

definition extra_note :: jsstring where
  "extra_note = js ''Extra transactions in YNAB''"

text \<open>What one row of the report shows: the difference (\<open>None\<close> prints \<open>N/A\<close>) and the note.\<close>

record Reconciliation =
  difference :: "jsnum option"
  reconcileNote :: "jsstring option"

text \<open>\<open>Math.abs(d) > 0\<close> and \<open>d < 0\<close>; both are false of \<open>NaN\<close>.\<close>

fun abs_positive :: "jsnum \<Rightarrow> bool" where
  "abs_positive NaN = False"
| "abs_positive (Fin x) = (x \<noteq> 0)"
| "abs_positive d = True"

fun negative :: "jsnum \<Rightarrow> bool" where
  "negative NegInf = True"
| "negative (Fin x) = (x < 0)"
| "negative d = False"

text \<open>
  The row of the \<open>AccountBalancesReport\<close> component:
  \<^verbatim>\<open>
  // Don't multiply fileBalance by 1000 since it's already in milliunits from the analyzer
  const fileBalance = account.fileBalance !== undefined ? account.fileBalance : null;
  const difference = fileBalance !== null ? fileBalance - account.cleared_balance : null;
  const hasDifference = difference !== null && Math.abs(difference) > 0;
  ...
  {hasDifference && (<small>{difference < 0 ? MISSING : EXTRA}</small>)}\<close>
\<close>

definition reconcile :: "Account \<Rightarrow> Reconciliation" where
  "reconcile account =
     (let fb = (if fileBalance account \<noteq> Undefined then fileBalance account else Null);
          diff = (if fb \<noteq> Null
                  then Some (js_minus (to_number fb) (Fin (cleared_balance account))) else None);
          hasDifference = (case diff of Some d \<Rightarrow> abs_positive d | None \<Rightarrow> False)
      in \<lparr>difference = diff,
          reconcileNote =
            (case diff of
               Some d \<Rightarrow>
                 if hasDifference then Some (if negative d then missing_note else extra_note)
                 else None
             | None \<Rightarrow> None)\<rparr>)"

text \<open>
  The report inside \<open>FileUploadWithYNAB.tsx\<close> differs in its first line,
  \<^verbatim>\<open>
  const fileBalance = account.fileBalance !== undefined ? account.fileBalance * 1000 : null;\<close>
  which scales the file balance to milliunits. \<open>null * 1000\<close> is \<open>0\<close>.
\<close>

definition reconcile_inline :: "Account \<Rightarrow> Reconciliation" where
  "reconcile_inline account =
     (let fb = (if fileBalance account \<noteq> Undefined
                then Num (times_const (to_number (fileBalance account)) 1000) else Null);
          diff = (if fb \<noteq> Null
                  then Some (js_minus (to_number fb) (Fin (cleared_balance account))) else None);
          hasDifference = (case diff of Some d \<Rightarrow> abs_positive d | None \<Rightarrow> False)
      in \<lparr>difference = diff,
          reconcileNote =
            (case diff of
               Some d \<Rightarrow>
                 if hasDifference then Some (if negative d then missing_note else extra_note)
                 else None
             | None \<Rightarrow> None)\<rparr>)"

text \<open>
  The example of the specification, and accounts whose file gave no balance:
  \<open>undefined\<close>, and \<open>null\<close>.
\<close>

definition example_account :: Account where
  "example_account =
     \<lparr>accountName = js ''Checking'', balance = 14500000, cleared_balance = 14500000,
      fileBalance = Num (Fin 14800000)\<rparr>"

definition account_without_file_balance :: Account where
  "account_without_file_balance =
     \<lparr>accountName = js ''Checking'', balance = 14500000, cleared_balance = 14500000,
      fileBalance = Undefined\<rparr>"

definition account_with_null_file_balance :: Account where
  "account_with_null_file_balance =
     \<lparr>accountName = js ''Checking'', balance = 14500000, cleared_balance = 14500000,
      fileBalance = Null\<rparr>"

section \<open>Workbooks and the balance of a statement\<close>

text \<open>
  What the analyzers read of a workbook of the \<open>xlsx\<close> library: \<open>SheetNames\<close> paired
  with \<open>Sheets\<close>, and of a sheet the value \<open>v\<close> of the cell at an address
  (\<open>sheet['B1'].v\<close>). Reading the file itself, \<open>XLSX.read\<close>, is a parameter that may throw.
\<close>

type_synonym sheet = "jsstring \<rightharpoonup> jsval"
type_synonym workbook = "(jsstring \<times> sheet) list"

datatype 'b content = Text jsstring | Binary 'b

record AnalysisResult =
  transactions :: "transformed_row list"
  finalBalance :: jsval

definition cell_v :: "sheet \<Rightarrow> jsstring \<Rightarrow> jsval" where
  "cell_v sh address = (case sh address of None \<Rightarrow> Undefined | Some v \<Rightarrow> v)"

definition first_sheet :: "workbook \<Rightarrow> sheet option" where
  "first_sheet wb = (case wb of [] \<Rightarrow> None | (n, sh) # rest \<Rightarrow> Some sh)"

text \<open>
  \<open>findBalanceInWorkbook\<close> (Mizrahi Tfahot):
  \<^verbatim>\<open>
  if (workbook.SheetNames.length > 1) {
    const transactionSheet = workbook.Sheets[workbook.SheetNames[1]];
    const potentialBalanceCells = ['B1'];
    for (const cellRef of potentialBalanceCells) {
      if (transactionSheet[cellRef] && transactionSheet[cellRef].v !== undefined)
        return transactionSheet[cellRef].v;
    }
  }
  return null;\<close>
\<close>

definition findBalanceInWorkbook :: "workbook \<Rightarrow> jsval" where
  "findBalanceInWorkbook wb =
     (if 1 < length wb then
        (let transactionSheet = snd (wb ! 1)
         in if cell_v transactionSheet (js ''B1'') \<noteq> Undefined
            then cell_v transactionSheet (js ''B1'') else Null)
      else Null)"

definition mizrahi_read_failed :: exn where
  "mizrahi_read_failed = Error (js ''Failed to process Mizrahi Tfahot Excel file'')"

definition mizrahi_expects_excel :: exn where
  "mizrahi_expects_excel = Error (js ''Mizrahi Tfahot analyzer expects an Excel file'')"

text \<open>
  \<open>analyzeMizrahiTfahotFile\<close>. \<open>extractTransactionsFromWorkbook\<close> catches its own
  exceptions and is a parameter here. The end of the function:
  \<^verbatim>\<open>
  // Make absolutely sure the final balance is not null, fallback to 0 if needed
  if (finalBalance === null) { finalBalance = 0; }
  return { transactions: transformedTransactions, finalBalance };\<close>
\<close>

definition analyzeMizrahiTfahotFile ::
  "(jsnum \<Rightarrow> jsstring) \<Rightarrow> ('b content \<Rightarrow> exn + workbook) \<Rightarrow> (workbook \<Rightarrow> raw_row option list)
     \<Rightarrow> 'b content \<Rightarrow> exn + AnalysisResult" where
  "analyzeMizrahiTfahotFile numstr xlsx_read extractTransactionsFromWorkbook c =
     (case c of
        Text s \<Rightarrow> Inl mizrahi_expects_excel
      | Binary b \<Rightarrow>
          (case xlsx_read c of
             Inl e \<Rightarrow> Inl mizrahi_read_failed
           | Inr wb \<Rightarrow>
               (let balance = findBalanceInWorkbook wb;
                    rows = extractTransactionsFromWorkbook wb
                in case transformTransactions numstr rows of
                     Inl e \<Rightarrow> Inl e
                   | Inr ts \<Rightarrow>
                       Inr \<lparr>transactions = ts,
                            finalBalance = (if balance = Null then Num (Fin 0) else balance)\<rparr>)))"

text \<open>
  Discount: \<open>extractBalanceFromSheet\<close> reads cell E9, a number as it is, a string after
  \<open>replace(/[^\d.-]/g, '')\<close> when \<open>Number\<close> can read the rest.
\<close>

definition extractBalanceFromSheet :: "sheet option \<Rightarrow> jsval" where
  "extractBalanceFromSheet so =
     (case so of
        None \<Rightarrow> Null
      | Some sh \<Rightarrow>
          (case cell_v sh (js ''E9'') of
             Num n \<Rightarrow> Num n
           | Str s \<Rightarrow>
               (let numericValue = js_Number (filter (\<lambda>c. is_digit c \<or> c = 46 \<or> c = 45) s)
                in if numericValue \<noteq> NaN then Num numericValue else Null)
           | _ \<Rightarrow> Null))"

definition discount_read_failed :: "'b content \<Rightarrow> exn" where
  "discount_read_failed c =
     (case c of
        Binary b \<Rightarrow> Error (js ''Failed to process Discount bank file'')
      | Text s \<Rightarrow> Error (js ''Failed to process Discount bank CSV file''))"

text \<open>
  \<open>analyzeDiscountFile\<close>. The date transform of this vendor goes through the \<open>Date\<close>
  object; \<open>extractTransactionsFromSheet\<close> and \<open>transformTransactions\<close> are parameters.
  The function ends like the one above: \<open>if (finalBalance === null) finalBalance = 0\<close>.
\<close>

definition analyzeDiscountFile ::
  "('b content \<Rightarrow> exn + workbook) \<Rightarrow> (sheet option \<Rightarrow> raw_row list)
     \<Rightarrow> (raw_row list \<Rightarrow> exn + transformed_row list) \<Rightarrow> 'b content \<Rightarrow> exn + AnalysisResult" where
  "analyzeDiscountFile xlsx_read extractTransactionsFromSheet transform_rows c =
     (case xlsx_read c of
        Inl e \<Rightarrow> Inl (discount_read_failed c)
      | Inr wb \<Rightarrow>
          (let balance = extractBalanceFromSheet (first_sheet wb);
               rows = extractTransactionsFromSheet (first_sheet wb)
           in case transform_rows rows of
                Inl e \<Rightarrow> Inl e
              | Inr ts \<Rightarrow>
                  Inr \<lparr>transactions = ts,
                       finalBalance = (if balance = Null then Num (Fin 0) else balance)\<rparr>))"

text \<open>
  The setting of the test ``should default to 0 balance when none found'': a workbook
  of one sheet without cells, and no transactions.
\<close>

definition single_sheet_workbook :: workbook where
  "single_sheet_workbook = [(js ''Sheet1'', Map.empty)]"

definition read_single_sheet :: "nat list content \<Rightarrow> exn + workbook" where
  "read_single_sheet c = Inr single_sheet_workbook"

definition extract_no_rows :: "workbook \<Rightarrow> raw_row option list" where
  "extract_no_rows wb = []"

definition sheet_no_rows :: "sheet option \<Rightarrow> raw_row list" where
  "sheet_no_rows so = []"

definition transform_no_rows :: "raw_row list \<Rightarrow> exn + transformed_row list" where
  "transform_no_rows rows = Inr []"

section \<open>Detectors\<close>

text \<open>
  The detectors of the card vendors look at the sheet through
  \<open>XLSX.utils.sheet_to_json(sheet, { header: 1 })\<close>, an array of rows, each an array of
  cells; that array is the argument here. A row index past the end reads \<open>undefined\<close>,
  and calling \<open>.some\<close> on it throws a \<open>TypeError\<close>.
\<close>

definition he_cal_prefix :: jsstring where
  "he_cal_prefix =
     [1508, 1497, 1512, 1493, 1496, 32, 1495, 1497, 1493, 1489, 1497, 1501, 32, 1500, 1499,
      1512, 1496, 1497, 1505]"

definition he_purchase_date :: jsstring where
  "he_purchase_date = [1514, 1488, 1512, 1497, 1498, 32, 1512, 1499, 1497, 1513, 1492]"

definition type_error_some :: exn where
  "type_error_some = TypeError (js ''Cannot read properties of undefined (reading 'some')'')"

definition type_error_index :: exn where
  "type_error_index = TypeError (js ''Cannot read properties of undefined (reading '0')'')"

text \<open>\<open>sheetJson[r][0]\<close>.\<close>

definition first_cell_of_row :: "jsval list list \<Rightarrow> nat \<Rightarrow> exn + jsval" where
  "first_cell_of_row sheetJson r =
     (case nth_opt sheetJson r of None \<Rightarrow> Inl type_error_index | Some row \<Rightarrow> Inr (cell row 0))"

text \<open>
  \<^verbatim>\<open>
  export function isCalFile(fileName, sheet) {
    if (!fileName.startsWith(CAL_PREFIX)) return null;
    const sheetJson = XLSX.utils.sheet_to_json(sheet, { header: 1 });
    const firstRow = sheetJson[4]; // Cal files have headers in row 5
    const isCal = firstRow.some((cell) => {
      if (!cell || typeof cell !== 'string') return false;
      const normalizedCell = normalizeHeaderString(cell);
      return normalizedCell === TXN_DATE || normalizedCell === MERCHANT;
    });
    return isCal ? sheetJson[0][0] : null;
  }\<close>
\<close>

definition isCalFile :: "jsstring \<Rightarrow> jsval list list \<Rightarrow> exn + jsval" where
  "isCalFile fileName sheetJson =
     (if \<not> startsWith fileName he_cal_prefix then Inr Null
      else case nth_opt sheetJson 4 of
        None \<Rightarrow> Inl type_error_some
      | Some firstRow \<Rightarrow>
          (let isCal = list_ex (\<lambda>c. case c of
                          Str s \<Rightarrow> s \<noteq> [] \<and> (normalizeHeaderString s = he_txn_date
                                              \<or> normalizeHeaderString s = he_merchant)
                        | _ \<Rightarrow> False) firstRow
           in if isCal then first_cell_of_row sheetJson 0 else Inr Null))"

text \<open>
  \<open>isIsracardFile\<close>: the name starts with \<open>Export_\<close>, the headers are in row 5 and
  are found with \<open>includes\<close>; the identifier is \<open>sheetJson[3][0]\<close>.
\<close>

definition isIsracardFile :: "jsstring \<Rightarrow> jsval list list \<Rightarrow> exn + jsval" where
  "isIsracardFile fileName sheetJson =
     (if \<not> startsWith fileName (js ''Export_'') then Inr Null
      else case nth_opt sheetJson 5 of
        None \<Rightarrow> Inl type_error_some
      | Some firstRow \<Rightarrow>
          (let isIsracard = list_ex (\<lambda>c. case c of
                          Str s \<Rightarrow> s \<noteq> [] \<and> (includes_str s he_purchase_date
                                              \<or> includes_str s he_merchant)
                        | _ \<Rightarrow> False) firstRow
           in if isIsracard then first_cell_of_row sheetJson 3 else Inr Null))"

text \<open>
  \<open>isMaxFile\<close> of \<open>utils/maxAnalyzer.ts\<close> answers with a boolean. The lower-casing of
  the file name is the parameter \<open>toLowerCase\<close>.
  \<^verbatim>\<open>
  if (!fileName.toLowerCase().includes('transaction-details_export_')) return false;
  const firstRow = sheetJson[3]; // Max files have headers in row 4
  return firstRow.some(cell => cell && typeof cell === 'string' &&
    (cell.includes(TXN_DATE) || cell.includes(MAX_MERCHANT)));\<close>
\<close>

definition isMaxFile :: "(jsstring \<Rightarrow> jsstring) \<Rightarrow> jsstring \<Rightarrow> jsval list list \<Rightarrow> exn + jsval" where
  "isMaxFile toLowerCase fileName sheetJson =
     (if \<not> includes_str (toLowerCase fileName) (js ''transaction-details_export_'')
      then Inr (Bool False)
      else case nth_opt sheetJson 3 of
        None \<Rightarrow> Inl type_error_some
      | Some firstRow \<Rightarrow>
          Inr (Bool (list_ex (\<lambda>c. case c of
                          Str s \<Rightarrow> s \<noteq> [] \<and> (includes_str s he_txn_date
                                              \<or> includes_str s he_max_merchant)
                        | _ \<Rightarrow> False) firstRow)))"

text \<open>A Cal file name, a sheet of one row, and the sheet of the \<open>isCalFile\<close> test.\<close>

definition cal_file_name :: jsstring where
  "cal_file_name = he_cal_prefix @ js '' 1234.xlsx''"

definition one_row_sheet :: "jsval list list" where
  "one_row_sheet = [[Str (js ''1234-5678'')]]"

definition cal_test_sheet :: "jsval list list" where
  "cal_test_sheet =
     [[Str (js ''1234-5678'')], [], [], [],
      [Str [1514, 1488, 1512, 1497, 1498, 10, 1506, 1505, 1511, 1492], Str he_merchant]]"

definition ascii_lower :: "jsstring \<Rightarrow> jsstring" where
  "ascii_lower s = map (\<lambda>c. if 65 \<le> c \<and> c \<le> 90 then c + 32 else c) s"

section \<open>The pipeline (\<open>fileAnalyzer.ts\<close>)\<close>

text \<open>
  \<open>VendorInfo\<close>: the descriptor of a vendor. The objects made by \<open>findVendorInText\<close>
  have neither \<open>analyzeFile\<close> nor \<open>isVendorFile\<close>. A detector is handed the first sheet
  of a workbook, or the parsed rows of a CSV file, or its header fields.
\<close>

datatype detector_input =
  SheetInput "sheet option" | RowsInput "raw_row list" | FieldsInput "jsstring list"

record 'b VendorInfo =
  vendorName :: jsstring
  confidence :: real
  uniqueIdentifiers :: "jsstring list"
  fieldMappings :: "FieldMapping list"
  analyzeFile_of :: "('b content \<Rightarrow> jsstring \<Rightarrow> exn + AnalysisResult) option"
  isVendorFile :: "(jsstring \<Rightarrow> detector_input \<Rightarrow> exn + jsval) option"

record 'b FileAnalysis =
  fileName :: jsstring
  vendorInfo :: "'b VendorInfo optional"
  error :: "jsstring option"
  data :: "AnalysisResult optional"
  topFinalBalance :: jsval
  fileIdentifier :: jsval

text \<open>A \<open>File\<close>: its name and what \<open>file.text()\<close> and \<open>file.arrayBuffer()\<close> settle to.\<close>

record 'b File =
  file_name :: jsstring
  file_text :: "exn + jsstring"
  file_arrayBuffer :: "exn + 'b"

text \<open>
  What the pipeline takes from outside: the case conversions of the string library, the
  \<open>xlsx\<close> and \<open>papaparse\<close> parsers, and the vendor descriptors. \<open>excelVendors\<close> are
  the five descriptors \<open>analyzeExcelContent\<close> asks in its order (Cal, Isracard, Max,
  Mizrahi Tfahot, Discount); \<open>REGISTERED_ANALYZERS\<close> is the list of six of that name.
\<close>

record papa_result =
  parse_errors :: "jsstring list"
  meta_fields :: "jsstring list option"
  parsed :: "raw_row list"

record 'b pipeline =
  toLowerCase :: "jsstring \<Rightarrow> jsstring"
  toUpperCase :: "jsstring \<Rightarrow> jsstring"
  XLSX_read :: "'b content \<Rightarrow> exn + workbook"
  sheet_to_json :: "sheet option \<Rightarrow> exn + raw_row list"
  Papa_parse :: "jsstring \<Rightarrow> nat \<Rightarrow> exn + raw_row list"
  Papa_parse_no_header :: "jsstring \<Rightarrow> nat \<Rightarrow> exn + jsstring list list"
  Papa_parse_default :: "jsstring \<Rightarrow> exn + papa_result"
  excelVendors :: "'b VendorInfo list"
  REGISTERED_ANALYZERS :: "'b VendorInfo list"
  getPoalimVendorInfo :: "'b VendorInfo"

subsection \<open>Vendors named in the text of a row\<close>

definition VENDOR_IDENTIFIERS :: "(jsstring \<times> jsstring list) list" where
  "VENDOR_IDENTIFIERS =
     [(js ''AMAZON'', [js ''AMAZON'', js ''AMZN'', js ''AMAZON.COM'']),
      (js ''STARBUCKS'', [js ''STARBUCKS'', js ''SBUX'']),
      (js ''NETFLIX'', [js ''NETFLIX'', js ''NETFLIX.COM'']),
      (js ''SPOTIFY'', [js ''SPOTIFY'', js ''SPOTIFY USA'']),
      (js ''APPLE'', [js ''APPLE'', js ''APPLE.COM'', js ''ITUNES'']),
      (js ''GOOGLE'', [js ''GOOGLE'', js ''GOOGLE *'', js ''GOOGLE.COM''])]"

definition findVendorInText :: "(jsstring \<Rightarrow> jsstring) \<Rightarrow> jsstring \<Rightarrow> 'b VendorInfo option" where
  "findVendorInText upper text =
     (let upperText = upper text
      in case find (\<lambda>(vendor, pattern). includes_str upperText pattern)
                (concat (map (\<lambda>(vendor, patterns). map (\<lambda>p. (vendor, p)) patterns)
                   VENDOR_IDENTIFIERS)) of
           None \<Rightarrow> None
         | Some (vendor, pattern) \<Rightarrow>
             Some \<lparr>vendorName = vendor, confidence = 9 / 10, uniqueIdentifiers = [pattern],
                   fieldMappings = [], analyzeFile_of = None, isVendorFile = None\<rparr>)"

definition commonColumns :: "jsstring list" where
  "commonColumns =
     [js ''description'', js ''merchant'', js ''vendor'', js ''payee'', js ''name'']"

text \<open>
  \<^verbatim>\<open>
  for (const row of data) for (const column of commonColumns) {
    const value = row[column];
    if (value && typeof value === 'string') {
      const vendorInfo = findVendorInText(value);
      if (vendorInfo) return { vendorInfo, identifier: value };
    }
  }\<close>
\<close>

definition scan_common_columns ::
  "(jsstring \<Rightarrow> jsstring) \<Rightarrow> raw_row list \<Rightarrow> ('b VendorInfo \<times> jsstring) option" where
  "scan_common_columns upper rows =
     (case List.map_filter
             (\<lambda>v. case v of
                    Str s \<Rightarrow> (if s = [] then None
                              else case findVendorInText upper s of
                                     None \<Rightarrow> None | Some info \<Rightarrow> Some (info, s))
                  | _ \<Rightarrow> None)
             (concat (map (\<lambda>row. map (get_prop row) commonColumns) rows)) of
        [] \<Rightarrow> None
      | hit # _ \<Rightarrow> Some hit)"

subsection \<open>Spreadsheets\<close>

text \<open>
  Asking the detectors in order, \<open>info.isVendorFile?.(fileName, firstSheet)\<close>: the first
  truthy answer is the identifier.
\<close>

fun ask_vendors ::
  "'b VendorInfo list \<Rightarrow> jsstring \<Rightarrow> detector_input \<Rightarrow> exn + ('b VendorInfo \<times> jsval) option" where
  "ask_vendors [] name inp = Inr None"
| "ask_vendors (info # rest) name inp =
     (case isVendorFile info of
        None \<Rightarrow> ask_vendors rest name inp
      | Some detect \<Rightarrow>
          (case detect name inp of
             Inl e \<Rightarrow> Inl e
           | Inr ident \<Rightarrow>
               if truthy ident then Inr (Some (info, ident)) else ask_vendors rest name inp))"

definition analyzeExcelContent ::
  "'b pipeline \<Rightarrow> 'b \<Rightarrow> jsstring \<Rightarrow> exn + ('b VendorInfo optional \<times> jsval)" where
  "analyzeExcelContent env buffer name =
     (case XLSX_read env (Binary buffer) of
        Inl e \<Rightarrow> Inl e
      | Inr workbook \<Rightarrow>
          (case sheet_to_json env (first_sheet workbook) of
             Inl e \<Rightarrow> Inl e
           | Inr rows \<Rightarrow>
               (case ask_vendors (excelVendors env) name (SheetInput (first_sheet workbook)) of
                  Inl e \<Rightarrow> Inl e
                | Inr (Some (info, ident)) \<Rightarrow> Inr (Present info, ident)
                | Inr None \<Rightarrow>
                    (case scan_common_columns (toUpperCase env) rows of
                       Some (info, v) \<Rightarrow> Inr (Present info, Str v)
                     | None \<Rightarrow> Inr (IsNull, Null)))))"

subsection \<open>Delimited text\<close>

text \<open>
  \<open>detectDelimiter\<close> counts the matches of \<open>new RegExp(delimiter, 'g')\<close> in the first
  line. For the pipe that pattern is an empty alternation, which matches the empty text
  at each of the \<open>length + 1\<close> positions.
\<close>

definition delimiter_count :: "nat \<Rightarrow> jsstring \<Rightarrow> nat" where
  "delimiter_count d line = (if d = 124 then length line + 1 else count_list line d)"

definition detectDelimiter :: "jsstring \<Rightarrow> nat" where
  "detectDelimiter csvText =
     (let firstLine = hd (split csvText 10)
      in fst (foldl (\<lambda>(best, maxCount) d.
                       if maxCount < delimiter_count d firstLine
                       then (d, delimiter_count d firstLine) else (best, maxCount))
                (44, 0) [44, 59, 9, 124]))"

definition remove_bom :: "jsstring \<Rightarrow> jsstring" where
  "remove_bom content = (case content of [] \<Rightarrow> [] | c # cs \<Rightarrow> if c = 65279 then cs else c # cs)"

definition message_or_string :: "exn \<Rightarrow> jsstring" where
  "message_or_string e = (case e of Error m \<Rightarrow> m | TypeError m \<Rightarrow> m | NonError s \<Rightarrow> s)"

definition unknown_file_format :: exn where
  "unknown_file_format =
     Error (js ''Unknown file format. Could not determine bank or credit card format.'')"

definition type_error_not_a_function :: exn where
  "type_error_not_a_function = TypeError (js ''analyzer.isVendorFile is not a function'')"

definition type_error_analyzeFile :: exn where
  "type_error_analyzeFile = TypeError (js ''analyzer.analyzeFile is not a function'')"

text \<open>
  The rows the dispatcher of \<open>analyzers/fileAnalyzer.ts\<close> looks at: the parse with
  headers, or, when that has fewer than two rows and the parse without headers has at
  least two, the rows zipped with the first one as their keys.
\<close>

definition zip_with_headers :: "jsstring list \<Rightarrow> jsstring list \<Rightarrow> raw_row" where
  "zip_with_headers headers row =
     rev (map (\<lambda>i. (headers ! i, case nth_opt row i of None \<Rightarrow> Undefined | Some c \<Rightarrow> Str c))
            [0..<length headers])"

definition csv_results :: "'b pipeline \<Rightarrow> jsstring \<Rightarrow> exn + raw_row list" where
  "csv_results env content =
     (let text = remove_bom content; delimiter = detectDelimiter text
      in case Papa_parse env text delimiter of
           Inl e \<Rightarrow> Inl (Error (js ''Failed to parse CSV file: '' @ message_or_string e))
         | Inr results \<Rightarrow>
             if length results < 2 then
               (case Papa_parse_no_header env text delimiter of
                  Inl e \<Rightarrow> Inr results
                | Inr rows \<Rightarrow>
                    if 2 \<le> length rows
                    then Inr (map (zip_with_headers (hd rows)) (tl rows))
                    else Inr results)
             else Inr results)"

text \<open>
  \<^verbatim>\<open>
  for (const analyzer of REGISTERED_ANALYZERS) {
    const isMatch = analyzer.isVendorFile(fileName, results);
    if (isMatch) return analyzer.analyzeFile(content, fileName);
  }
  // Could not determine the file format
  throw new Error('Unknown file format. Could not determine bank or credit card format.');\<close>
\<close>

fun dispatch_registered ::
  "'b VendorInfo list \<Rightarrow> jsstring \<Rightarrow> jsstring \<Rightarrow> raw_row list \<Rightarrow> exn + AnalysisResult" where
  "dispatch_registered [] content name results = Inl unknown_file_format"
| "dispatch_registered (analyzer # rest) content name results =
     (case isVendorFile analyzer of
        None \<Rightarrow> Inl type_error_not_a_function
      | Some detect \<Rightarrow>
          (case detect name (RowsInput results) of
             Inl e \<Rightarrow> Inl e
           | Inr isMatch \<Rightarrow>
               if truthy isMatch then
                 (case analyzeFile_of analyzer of
                    None \<Rightarrow> Inl type_error_analyzeFile
                  | Some analyze \<Rightarrow> analyze (Text content) name)
               else dispatch_registered rest content name results))"

definition analyzeCSVContent :: "'b pipeline \<Rightarrow> jsstring \<Rightarrow> jsstring \<Rightarrow> exn + AnalysisResult" where
  "analyzeCSVContent env content name =
     (case csv_results env content of
        Inl e \<Rightarrow> Inl e
      | Inr results \<Rightarrow> dispatch_registered (REGISTERED_ANALYZERS env) content name results)"

text \<open>
  The dispatcher of \<open>utils/fileAnalyzer.ts\<close> returns a pair:
  \<^verbatim>\<open>
  const result = Papa.parse(content, { header: true, skipEmptyLines: true });
  if (result.errors.length > 0) return { vendorInfo: null, identifier: null };
  const poalimVendorInfo = getPoalimVendorInfo();
  const poalimIdentifier = poalimVendorInfo.isVendorFile?.(fileName, result.meta.fields || []);
  if (poalimIdentifier) return { vendorInfo: poalimVendorInfo, identifier: poalimIdentifier };
  ... the scan of the common columns ...
  return { vendorInfo: null, identifier: null };\<close>
\<close>

definition analyzeCSVContent_utils ::
  "'b pipeline \<Rightarrow> jsstring \<Rightarrow> jsstring \<Rightarrow> exn + ('b VendorInfo optional \<times> jsval)" where
  "analyzeCSVContent_utils env content name =
     (case Papa_parse_default env content of
        Inl e \<Rightarrow> Inl e
      | Inr result \<Rightarrow>
          if parse_errors result \<noteq> [] then Inr (IsNull, Null)
          else
            (case ask_vendors [getPoalimVendorInfo env] name
                    (FieldsInput (case meta_fields result of None \<Rightarrow> [] | Some fs \<Rightarrow> fs)) of
               Inl e \<Rightarrow> Inl e
             | Inr (Some (info, ident)) \<Rightarrow> Inr (Present info, ident)
             | Inr None \<Rightarrow>
                 (case scan_common_columns (toUpperCase env) (parsed result) of
                    Some (info, v) \<Rightarrow> Inr (Present info, Str v)
                  | None \<Rightarrow> Inr (IsNull, Null))))"

subsection \<open>One file, and a batch\<close>

text \<open>
  The body of the \<open>try\<close> block of \<open>analyzeFile\<close> in \<open>analyzers/fileAnalyzer.ts\<close>. In
  the CSV branch \<open>analyzeCSVContent\<close> is an \<open>async\<close> function called without \<open>await\<close>:
  \<open>analysis\<close> is a promise, its properties \<open>vendorInfo\<close> and \<open>identifier\<close> are
  \<open>undefined\<close>, and whether that promise fulfils or rejects is never observed. So the
  result of the branch depends on the file's text being readable only.
\<close>

definition analysis_of ::
  "jsstring \<Rightarrow> 'b VendorInfo optional \<Rightarrow> AnalysisResult optional \<Rightarrow> jsval \<Rightarrow> jsval
     \<Rightarrow> 'b FileAnalysis" where
  "analysis_of name info d bal ident =
     \<lparr>fileName = name, vendorInfo = info, error = None, data = d,
      topFinalBalance = bal, fileIdentifier = ident\<rparr>"

definition analyzeFile_try :: "'b pipeline \<Rightarrow> 'b File \<Rightarrow> exn + 'b FileAnalysis" where
  "analyzeFile_try env file =
     (if endsWith (file_name file) (js ''.csv'') then
        (case file_text file of
           Inl e \<Rightarrow> Inl e
         | Inr content \<Rightarrow> Inr (analysis_of (file_name file) Absent IsNull Undefined Undefined))
      else if endsWith (toLowerCase env (file_name file)) (js ''.xls'')
            \<or> endsWith (toLowerCase env (file_name file)) (js ''.xlsx'')
            \<or> endsWith (toLowerCase env (file_name file)) (js ''.xlsm'') then
        (case file_arrayBuffer file of
           Inl e \<Rightarrow> Inl e
         | Inr buffer \<Rightarrow>
             (case analyzeExcelContent env buffer (file_name file) of
                Inl e \<Rightarrow> Inl e
              | Inr (info, ident) \<Rightarrow>
                  (case (case info of Present i \<Rightarrow> analyzeFile_of i | _ \<Rightarrow> None) of
                     None \<Rightarrow> Inr (analysis_of (file_name file) info IsNull Undefined ident)
                   | Some analyze \<Rightarrow>
                       (case analyze (Binary buffer) (file_name file) of
                          Inl e \<Rightarrow> Inl e
                        | Inr d \<Rightarrow>
                            Inr (analysis_of (file_name file) info (Present d)
                                   (finalBalance d) ident)))))
      else Inr (analysis_of (file_name file) IsNull IsNull Undefined Null))"

text \<open>
  The \<open>catch\<close> block:
  \<^verbatim>\<open>
  return { fileName: file.name, vendorInfo: null,
           error: error instanceof Error ? error.message : 'Unknown error occurred',
           identifier: null };\<close>
\<close>

definition error_message :: "exn \<Rightarrow> jsstring" where
  "error_message e =
     (case e of Error m \<Rightarrow> m | TypeError m \<Rightarrow> m | NonError s \<Rightarrow> js ''Unknown error occurred'')"

definition error_envelope :: "jsstring \<Rightarrow> exn \<Rightarrow> 'b FileAnalysis" where
  "error_envelope name e =
     \<lparr>fileName = name, vendorInfo = IsNull, error = Some (error_message e), data = Absent,
      topFinalBalance = Undefined, fileIdentifier = Null\<rparr>"

text \<open>
  \<open>analyzeFile\<close> is an \<open>async\<close> function: its value is what its promise settles to,
  \<open>Inr\<close> when it fulfils. \<open>analyzeFiles\<close> is \<open>Promise.all(files.map(analyzeFile))\<close>,
  which fulfils with the results in the order of the files, or rejects with the first
  rejection. An analysis shares no state with another one, so the order in which the
  promises are served does not show in the results.
\<close>

definition analyzeFile :: "'b pipeline \<Rightarrow> 'b File \<Rightarrow> exn + 'b FileAnalysis" where
  "analyzeFile env file =
     (case analyzeFile_try env file of
        Inl e \<Rightarrow> Inr (error_envelope (file_name file) e)
      | Inr analysis \<Rightarrow> Inr analysis)"

definition analyzeFiles :: "'b pipeline \<Rightarrow> 'b File list \<Rightarrow> exn + 'b FileAnalysis list" where
  "analyzeFiles env files = sequence_sum (map (analyzeFile env) files)"

subsection \<open>A small setting for examples\<close>

text \<open>
  One registered vendor whose detector never matches, parsers that find no rows, and a
  reader of workbooks that rejects every file.
\<close>

definition never_matches :: "jsstring \<Rightarrow> detector_input \<Rightarrow> exn + jsval" where
  "never_matches name inp = Inr Null"

definition analyze_nothing :: "nat list content \<Rightarrow> jsstring \<Rightarrow> exn + AnalysisResult" where
  "analyze_nothing c name = Inr \<lparr>transactions = [], finalBalance = Undefined\<rparr>"

definition some_vendor :: "nat list VendorInfo" where
  "some_vendor =
     \<lparr>vendorName = js ''Cal'', confidence = 1, uniqueIdentifiers = [js ''Cal Statement''],
      fieldMappings = [], analyzeFile_of = Some analyze_nothing,
      isVendorFile = Some never_matches\<rparr>"

definition read_fails :: "nat list content \<Rightarrow> exn + workbook" where
  "read_fails c = Inl (Error (js ''File is not a spreadsheet''))"

definition no_rows :: "sheet option \<Rightarrow> exn + raw_row list" where
  "no_rows so = Inr []"

definition parse_no_rows :: "jsstring \<Rightarrow> nat \<Rightarrow> exn + raw_row list" where
  "parse_no_rows content d = Inr []"

definition parse_no_lines :: "jsstring \<Rightarrow> nat \<Rightarrow> exn + jsstring list list" where
  "parse_no_lines content d = Inr []"

definition parse_empty :: "jsstring \<Rightarrow> exn + papa_result" where
  "parse_empty content = Inr \<lparr>parse_errors = [], meta_fields = Some [], parsed = []\<rparr>"

definition example_pipeline :: "nat list pipeline" where
  "example_pipeline =
     \<lparr>toLowerCase = ascii_lower, toUpperCase = ascii_lower, XLSX_read = read_fails,
      sheet_to_json = no_rows, Papa_parse = parse_no_rows,
      Papa_parse_no_header = parse_no_lines, Papa_parse_default = parse_empty,
      excelVendors = [some_vendor], REGISTERED_ANALYZERS = [some_vendor],
      getPoalimVendorInfo = some_vendor\<rparr>"

definition corrupt_file :: "nat list File" where
  "corrupt_file =
     \<lparr>file_name = js ''notes.xlsx'', file_text = Inr (js ''hello''), file_arrayBuffer = Inr [104]\<rparr>"

definition unknown_csv_file :: "nat list File" where
  "unknown_csv_file =
     \<lparr>file_name = js ''list.csv'', file_text = Inr (js ''a,b''), file_arrayBuffer = Inr [97]\<rparr>"

section \<open>The amount in a line of text (\<open>extractAmountFromHebrewText\<close>)\<close>

text \<open>
  The pattern is
  \<^verbatim>\<open>/(\d{1,3}(,\d{3})*(\.\d{1,2})?|\d+\.\d{1,2}|\d+,\d{1,2})/g\<close>
  Nothing follows the alternation, so at a position the engine takes the first
  alternative that matches there, each quantifier as greedy as it can be.
\<close>

text \<open>\<open>(,\d{3})*\<close> at the head of a text.\<close>

fun comma_groups_prefix :: "jsstring \<Rightarrow> jsstring" where
  "comma_groups_prefix (c # d1 # d2 # d3 # rest) =
     (if c = 44 \<and> is_digit d1 \<and> is_digit d2 \<and> is_digit d3
      then c # d1 # d2 # d3 # comma_groups_prefix rest else [])"
| "comma_groups_prefix s = []"

text \<open>\<open>\d{1,2}\<close> at the head of a text; empty when there is no digit.\<close>

definition one_or_two_digits :: "jsstring \<Rightarrow> jsstring" where
  "one_or_two_digits s = take 2 (takeWhile is_digit s)"

text \<open>\<open>(\.\d{1,2})?\<close> at the head of a text.\<close>

definition fraction_prefix :: "jsstring \<Rightarrow> jsstring" where
  "fraction_prefix s =
     (case s of
        [] \<Rightarrow> []
      | c # r \<Rightarrow> if c = 46 \<and> one_or_two_digits r \<noteq> [] then c # one_or_two_digits r else [])"

text \<open>The first alternative, \<open>\d{1,3}(,\d{3})*(\.\d{1,2})?\<close>.\<close>

definition grouped_alternative :: "jsstring \<Rightarrow> jsstring option" where
  "grouped_alternative s =
     (let a = take 3 (takeWhile is_digit s)
      in if a = [] then None
         else
           (let g = comma_groups_prefix (drop (length a) s);
                f = fraction_prefix (drop (length a + length g) s)
            in Some (a @ g @ f)))"

text \<open>The second and third alternatives, \<open>\d+\.\d{1,2}\<close> and \<open>\d+,\d{1,2}\<close>.\<close>

definition plain_alternative :: "nat \<Rightarrow> jsstring \<Rightarrow> jsstring option" where
  "plain_alternative sep s =
     (let a = takeWhile is_digit s
      in if a = [] then None
         else case dropWhile is_digit s of
                [] \<Rightarrow> None
              | c # r \<Rightarrow>
                  if c = sep \<and> one_or_two_digits r \<noteq> [] then Some (a @ c # one_or_two_digits r)
                  else None)"

definition match_at :: "jsstring \<Rightarrow> jsstring option" where
  "match_at s =
     (case grouped_alternative s of
        Some m \<Rightarrow> Some m
      | None \<Rightarrow>
          (case plain_alternative 46 s of
             Some m \<Rightarrow> Some m
           | None \<Rightarrow> plain_alternative 44 s))"

text \<open>
  \<open>text.match(regex)\<close> with the flag \<open>g\<close>: the matches from left to right, the search
  going on after the end of each match. \<open>skip\<close> counts the code units of the last match
  that are still to be passed.
\<close>

fun all_matches :: "nat \<Rightarrow> jsstring \<Rightarrow> jsstring list" where
  "all_matches skip [] = []"
| "all_matches skip (c # cs) =
     (if 0 < skip then all_matches (skip - 1) cs
      else case match_at (c # cs) of
             None \<Rightarrow> all_matches 0 cs
           | Some m \<Rightarrow> m # all_matches (length m - 1) cs)"

text \<open>
  \<^verbatim>\<open>
  let longestMatch = '';
  for (const match of matches) {
    if (match.length > longestMatch.length) longestMatch = match;
  }\<close>
\<close>

definition longest_match :: "jsstring list \<Rightarrow> jsstring" where
  "longest_match ms = foldl (\<lambda>longest m. if length longest < length m then m else longest) [] ms"

text \<open>
  \<^verbatim>\<open>
  if (!text) return null;
  const matches = text.match(regex);
  if (!matches || matches.length === 0) return null;
  ...
  const amountStr = longestMatch.replace(/,/g, '');
  const amount = parseFloat(amountStr);
  if (isNaN(amount)) return null;
  return amount;\<close>
\<close>

definition extractAmountFromHebrewText :: "jsstring \<Rightarrow> jsnum option" where
  "extractAmountFromHebrewText text =
     (if text = [] then None
      else
        (let matches = all_matches 0 text
         in if matches = [] then None
            else
              (let amount = parseFloat (filter (\<lambda>c. c \<noteq> 44) (longest_match matches))
               in if amount = NaN then None else Some amount)))"

text \<open>
  What a match of the first alternative looks like: one to three digits, then groups of
  a comma and three digits, then nothing or a dot and one or two digits.
\<close>

fun comma_groups :: "jsstring \<Rightarrow> bool" where
  "comma_groups [] = True"
| "comma_groups (c # d1 # d2 # d3 # rest) =
     (c = 44 \<and> is_digit d1 \<and> is_digit d2 \<and> is_digit d3 \<and> comma_groups rest)"
| "comma_groups s = False"

definition is_fraction :: "jsstring \<Rightarrow> bool" where
  "is_fraction f =
     (case f of
        [] \<Rightarrow> True
      | c # ds \<Rightarrow> c = 46 \<and> ds \<noteq> [] \<and> length ds \<le> 2 \<and> list_all is_digit ds)"

definition grouped_amount :: "jsstring \<Rightarrow> bool" where
  "grouped_amount m =
     list_ex (\<lambda>i. list_ex (\<lambda>j. i \<le> j \<and> j \<le> length m
                              \<and> list_all is_digit (take i m)
                              \<and> comma_groups (take (j - i) (drop i m))
                              \<and> is_fraction (drop j m))
                     [0..<Suc (length m)])
       [1, 2, 3]"

text \<open>
  The number a grouped amount denotes: its digits read as an integer, divided by ten
  for each digit after the dot.
\<close>

definition amount_value :: "jsstring \<Rightarrow> real" where
  "amount_value m =
     of_nat (digits_val 10 (filter is_digit m)) / 10 ^ length (filter is_digit (dropWhile (\<lambda>c. c \<noteq> 46) m))"

text \<open>The line of the Cal sheet from the test, and a text with a run of four digits.\<close>

definition charges_line :: jsstring where
  "charges_line =
     [1506, 1505, 1511, 1488, 1493, 1514, 32, 1500, 1495, 1497, 1493, 1489, 32, 1489]
     @ js ''-02/05/2025: 5,259.19 '' @ [8362]"

section \<open>Verified properties\<close>

subsection \<open>Doubles\<close>

lemma round_half_even_of_int: "round_half_even (of_int n) = n"
  by (simp add: round_half_even_def)

lemma two_powi_nat: "0 \<le> k \<Longrightarrow> (2::real) powi k = 2 ^ nat k"
  by (simp add: power_int_def)

lemma binary_exponent_lower:
  assumes "0 < x"
  shows "2 powi (binary_exponent x) \<le> x"
proof (cases "1 \<le> x")
  case True
  then have n: "0 < \<lfloor>x\<rfloor>" by simp
  from bitlen_bounds [OF n] have b: "2 ^ nat (bitlen \<lfloor>x\<rfloor> - 1) \<le> \<lfloor>x\<rfloor>" by simp
  have bl: "1 \<le> bitlen \<lfloor>x\<rfloor>"
    using n bitlen_eq_zero_iff [of "\<lfloor>x\<rfloor>"] bitlen_nonneg [of "\<lfloor>x\<rfloor>"] by linarith
  have "(2::real) powi (bitlen \<lfloor>x\<rfloor> - 1) = of_int (2 ^ nat (bitlen \<lfloor>x\<rfloor> - 1))"
    using bl by (simp add: two_powi_nat)
  also have "\<dots> \<le> of_int \<lfloor>x\<rfloor>" using b by (simp only: of_int_le_iff)
  also have "\<dots> \<le> x" by simp
  finally show ?thesis using True by (simp add: binary_exponent_def)
next
  case False
  let ?c = "\<lceil>1 / x\<rceil>"
  have y: "1 < 1 / x" using False assms by simp
  then have c: "0 < ?c - 1" by linarith
  from bitlen_bounds [OF c] have b: "?c - 1 < 2 ^ nat (bitlen (?c - 1))" by simp
  then have "?c \<le> 2 ^ nat (bitlen (?c - 1))" by linarith
  then have "real_of_int ?c \<le> of_int (2 ^ nat (bitlen (?c - 1)))" by (simp only: of_int_le_iff)
  moreover have "real_of_int (2 ^ nat (bitlen (?c - 1))) = 2 ^ nat (bitlen (?c - 1))" by simp
  moreover have "1 / x \<le> of_int ?c" by (rule le_of_int_ceiling)
  ultimately have "1 / x \<le> 2 ^ nat (bitlen (?c - 1))" by linarith
  then have "1 / 2 ^ nat (bitlen (?c - 1)) \<le> x"
    using assms by (simp add: field_simps)
  moreover have "(2::real) powi (- bitlen (?c - 1)) = 1 / 2 ^ nat (bitlen (?c - 1))"
    using bitlen_nonneg [of "?c - 1"] by (simp add: power_int_def field_simps)
  ultimately show ?thesis using False by (simp add: binary_exponent_def)
qed

text \<open>
  A number that fits the format, a significand below \<open>2^53\<close> at an exponent of the
  format, is not changed by the rounding.
\<close>

lemma double_representable:
  assumes x: "x = of_int m * 2 powi e" and m: "\<bar>m\<bar> < 2 ^ 53" and e: "- 1074 \<le> e" "e \<le> 971"
  shows "double x = Fin x"
proof (cases "x = 0")
  case True
  then show ?thesis by (simp add: double_def)
next
  case False
  define k where "k = binary_exponent \<bar>x\<bar>"
  define u where "u = max k (- 1022) - 52"
  have pos: "0 < \<bar>x\<bar>" using False by simp
  have ax: "\<bar>x\<bar> = of_int \<bar>m\<bar> * 2 powi e" by (simp add: x abs_mult)
  have ue: "u \<le> e"
  proof (rule ccontr)
    assume "\<not> u \<le> e"
    then have "e + 53 \<le> k" using e(1) by (simp add: u_def max_def split: if_splits)
    then have "(2::real) powi (e + 53) \<le> 2 powi k" by (intro power_int_increasing) simp_all
    also have "\<dots> \<le> \<bar>x\<bar>" unfolding k_def by (rule binary_exponent_lower [OF pos])
    finally have "(2::real) powi (e + 53) \<le> of_int \<bar>m\<bar> * 2 powi e" by (simp only: ax)
    moreover have "(2::real) powi (e + 53) = 2 ^ 53 * 2 powi e"
      by (simp add: power_int_add)
    ultimately have "(2::real) ^ 53 \<le> of_int \<bar>m\<bar>" by simp
    then have "real_of_int (2 ^ 53) \<le> of_int \<bar>m\<bar>" by simp
    then have "(2::int) ^ 53 \<le> \<bar>m\<bar>" by (simp only: of_int_le_iff)
    with m show False by simp
  qed
  have "x / 2 powi u = of_int m * 2 powi (e - u)" by (simp add: x power_int_diff)
  also have "\<dots> = of_int (m * 2 ^ nat (e - u))" using ue by (simp add: two_powi_nat)
  finally have r: "round_half_even (x / 2 powi u) = m * 2 ^ nat (e - u)"
    by (simp only: round_half_even_of_int)
  have restored: "of_int (m * 2 ^ nat (e - u)) * 2 powi u = x"
    using ue by (simp add: x two_powi_nat [symmetric] power_int_add [symmetric])
  have "\<bar>x\<bar> < 2 ^ 53 * 2 powi e"
  proof -
    have "real_of_int \<bar>m\<bar> < of_int (2 ^ 53)" using m by (simp only: of_int_less_iff)
    then have "real_of_int \<bar>m\<bar> < 2 ^ 53" by simp
    then show ?thesis unfolding ax by simp
  qed
  also have "\<dots> \<le> 2 ^ 53 * 2 powi 971"
  proof -
    have "(2::real) powi e \<le> 2 powi 971" using e(2) by (intro power_int_increasing) simp_all
    then show ?thesis by (rule mult_left_mono) simp
  qed
  also have "\<dots> = 2 ^ 1024" by simp
  finally have small: "\<not> 2 ^ 1024 \<le> \<bar>x\<bar>" by simp
  have y: "of_int (round_half_even (x / 2 powi u)) * 2 powi u = x" by (simp only: r restored)
  show ?thesis
    unfolding double_def Let_def k_def [symmetric] u_def [symmetric] y using False small by simp
qed

lemma double_of_int: "\<bar>n\<bar> < 2 ^ 53 \<Longrightarrow> double (of_int n) = Fin (of_int n)"
  using double_representable [of "of_int n" n 0] by simp

lemma double_not_NaN: "double x \<noteq> NaN"
  by (simp add: double_def Let_def)

text \<open>Integers written as numerals, for the examples.\<close>

lemma double_numeral: "(numeral k :: int) < 2 ^ 53 \<Longrightarrow> double (numeral k) = Fin (numeral k)"
  using double_of_int [of "numeral k"] by simp

lemma double_neg_numeral:
  "(numeral k :: int) < 2 ^ 53 \<Longrightarrow> double (- numeral k) = Fin (- numeral k)"
  using double_of_int [of "- numeral k"] by simp

lemma double_zero: "double 0 = Fin 0"
  by (simp add: double_def)

lemma double_one: "double 1 = Fin 1"
  using double_of_int [of 1] by simp

lemmas double_eval = double_numeral double_neg_numeral double_zero double_one

subsection \<open>Number parsing\<close>

lemma digit_not_ws: "is_digit c \<Longrightarrow> \<not> is_ws c"
  by (auto simp: is_digit_def is_ws_def)

lemma digit_in_10: "is_digit c \<Longrightarrow> digit_in 10 c = Some (c - 48)"
  by (auto simp: is_digit_def digit_in_def Let_def)

text \<open>On a non-empty run of decimal digits \<open>parseInt\<close> reads the whole run.\<close>

lemma parseInt_digits:
  assumes "ds \<noteq> []" and "\<forall>c\<in>set ds. is_digit c"
  shows "parseInt ds = double (of_nat (digits_val 10 ds))"
proof -
  obtain c cs where ds: "ds = c # cs" using assms(1) by (cases ds) auto
  have c: "is_digit c" using assms(2) ds by simp
  have ws: "dropWhile is_ws ds = ds" using c ds by (simp add: digit_not_ws)
  have sign: "hd ds \<noteq> 43" "hd ds \<noteq> 45" using c ds by (auto simp: is_digit_def)
  have nothex: "\<not> (2 \<le> length ds \<and> ds ! 0 = 48 \<and> (ds ! 1 = 120 \<or> ds ! 1 = 88))"
  proof
    assume h: "2 \<le> length ds \<and> ds ! 0 = 48 \<and> (ds ! 1 = 120 \<or> ds ! 1 = 88)"
    then have "ds ! 1 \<in> set ds" by (intro nth_mem) simp
    then have "is_digit (ds ! 1)" using assms(2) by blast
    with h show False by (auto simp: is_digit_def)
  qed
  have u: "(if ds \<noteq> [] \<and> (hd ds = 43 \<or> hd ds = 45) then tl ds else ds) = ds"
    using sign by simp
  have tw: "takeWhile (\<lambda>c. digit_in 10 c \<noteq> None) ds = ds"
    using assms(2) by (simp add: takeWhile_eq_all_conv digit_in_10)
  have nh: "(2 \<le> length ds \<and> ds ! 0 = 48 \<and> (ds ! 1 = 120 \<or> ds ! 1 = 88)) = False"
    using nothex by blast
  show ?thesis
    unfolding parseInt_def Let_def ws u nh if_False tw using sign assms(1) by simp
qed

text \<open>A run of \<open>n\<close> decimal digits is below \<open>10^n\<close>.\<close>

lemma digits_val_snoc: "digits_val r (ds @ [c]) = digits_val r ds * r + the (digit_in r c)"
  by (simp add: digits_val_def)

lemma digits_val_bound:
  assumes "\<forall>c\<in>set ds. is_digit c"
  shows "digits_val 10 ds < 10 ^ length ds"
  using assms
proof (induction ds rule: rev_induct)
  case Nil
  show ?case by (simp add: digits_val_def)
next
  case (snoc c ds)
  have "is_digit c" using snoc.prems by simp
  then have "the (digit_in 10 c) \<le> 9" by (auto simp: digit_in_10 is_digit_def)
  moreover have "digits_val 10 ds < 10 ^ length ds" using snoc by simp
  ultimately have "digits_val 10 ds * 10 + the (digit_in 10 c) < 10 ^ length ds * 10"
    by linarith
  then show ?case by (simp add: digits_val_snoc mult.commute)
qed

subsection \<open>Bank Hapoalim amounts\<close>

text \<open>
  A cell that, once its first dot is deleted, is a run of at most fifteen digits: the
  integer and its product by ten are doubles, so nothing is rounded.
\<close>

lemma poalim_amount_digits:
  assumes "remove1 46 s \<noteq> []" and "\<forall>c\<in>set (remove1 46 s). is_digit c"
    and "length (remove1 46 s) \<le> 15" and "k = 10 \<or> k = - 10"
  shows "poalim_amount k (Str s) = Inr (Num (Fin (k * of_nat (digits_val 10 (remove1 46 s)))))"
proof -
  let ?n = "digits_val 10 (remove1 46 s)"
  have s: "s \<noteq> []" using assms(1) by auto
  have "?n < 10 ^ length (remove1 46 s)" using assms(2) by (rule digits_val_bound)
  also have "\<dots> \<le> 10 ^ 15" using assms(3) by (intro power_increasing) simp_all
  finally have n: "?n < 10 ^ 15" .
  then have n1: "\<bar>int ?n\<bar> < 2 ^ 53" and n5: "\<bar>5 * int ?n\<bar> < 2 ^ 53" "\<bar>- 5 * int ?n\<bar> < 2 ^ 53"
    by simp_all
  have p: "parseInt (remove1 46 s) = Fin (of_nat ?n)"
    using parseInt_digits [OF assms(1,2)] double_of_int [OF n1] by simp
  have t: "double (of_nat ?n * k) = Fin (k * of_nat ?n)"
  proof -
    from assms(4) show ?thesis
    proof
      assume k: "k = 10"
      have "of_nat ?n * 10 = real_of_int (5 * int ?n) * 2 powi 1" by simp
      from double_representable [OF this n5(1)] show ?thesis using k by simp
    next
      assume k: "k = - 10"
      have "of_nat ?n * - 10 = real_of_int (- 5 * int ?n) * 2 powi 1" by simp
      from double_representable [OF this n5(2)] show ?thesis using k by simp
    qed
  qed
  show ?thesis using s p t by (simp add: poalim_amount_def Let_def)
qed

lemma poalim_amount_empty: "poalim_amount k (Str []) = Inr Null"
  by (simp add: poalim_amount_def)

lemma poalim_amount_total: "\<exists>w. poalim_amount k (Str s) = Inr w"
  by (auto simp: poalim_amount_def Let_def)

lemma poalim_first_writer:
  assumes "get_prop row he_debit = Str sd" and "poalim_debit_transform (Str sd) = Inr w" and "truthy w"
  shows "field_of Amount (poalim_transform_row row) = Inr w"
  using assms
  by (simp add: poalim_transform_row_def POALIM_FIELD_MAPPINGS_def apply_transform_def Let_def
      field_of_def empty_row_def)

lemma poalim_later_fills:
  assumes "get_prop row he_debit = Undefined
           \<or> (get_prop row he_debit = Str sd \<and> poalim_debit_transform (Str sd) = Inr w \<and> \<not> truthy w)"
    and "get_prop row he_credit = Str sc"
  shows "field_of Amount (poalim_transform_row row) = poalim_credit_transform (Str sc)"
proof -
  obtain u where u: "poalim_credit_transform (Str sc) = Inr u"
    using poalim_amount_total by (auto simp: poalim_credit_transform_def)
  show ?thesis using assms u
    by (auto simp add: poalim_transform_row_def POALIM_FIELD_MAPPINGS_def apply_transform_def Let_def
      field_of_def empty_row_def)
qed

lemmas poalim_eval =
  poalim_transform_row_def POALIM_FIELD_MAPPINGS_def apply_transform_def Let_def
  field_of_def empty_row_def poalim_debit_transform_def poalim_credit_transform_def
  poalim_amount_def parseInt_def js_def is_ws_def digit_in_def digits_val_def get_prop_def
  he_date_def he_action_def he_details_def he_debit_def he_credit_def double_eval

text \<open>
  C2, as stated, fails: the credit cell \<open>5000\<close> of the salary row becomes the amount
  \<open>50000\<close>, not \<open>5000000\<close>. The transform deletes the first dot and multiplies the
  integer by ten, so it scales by 1000 only a cell written with two decimals.
\<close>

theorem poalim_credit_5000_is_50000:
  "field_of Amount (poalim_transform_row poalim_credit_row) = Inr (Num (Fin 50000))
   \<and> field_of Amount (poalim_transform_row poalim_credit_row) \<noteq> Inr (Num (Fin 5000000))"
  by (simp add: poalim_eval poalim_credit_row_def)

text \<open>
  C2, amended: for every row and every cell text \<open>s\<close> that, once its first dot is
  deleted, is a non-empty run of at most fifteen digits of value \<open>n\<close>, a debit cell \<open>s\<close>
  with \<open>n\<close> not zero gives the amount \<open>-10 * n\<close>, and a credit cell \<open>s\<close> beside an empty
  or absent debit cell gives the amount \<open>10 * n\<close>. So the credit cell \<open>5000\<close> gives
  \<open>50000\<close>, the debit cell \<open>200\<close> gives \<open>-2000\<close>, and the debit cell \<open>1.000\<close> gives
  \<open>-10000\<close>.
\<close>

theorem poalim_amount_is_ten_times_digits:
  assumes "remove1 46 s \<noteq> []" and "\<forall>c\<in>set (remove1 46 s). is_digit c"
    and "length (remove1 46 s) \<le> 15"
  shows "(get_prop row he_debit = Str s \<and> digits_val 10 (remove1 46 s) \<noteq> 0 \<longrightarrow>
            field_of Amount (poalim_transform_row row)
              = Inr (Num (Fin (- 10 * of_nat (digits_val 10 (remove1 46 s))))))
       \<and> (get_prop row he_credit = Str s
            \<and> (get_prop row he_debit = Undefined \<or> get_prop row he_debit = Str []) \<longrightarrow>
            field_of Amount (poalim_transform_row row)
              = Inr (Num (Fin (10 * of_nat (digits_val 10 (remove1 46 s))))))"
proof -
  let ?n = "digits_val 10 (remove1 46 s)"
  have d: "poalim_debit_transform (Str s) = Inr (Num (Fin (- 10 * of_nat ?n)))"
    using poalim_amount_digits [OF assms, of "- 10"] by (simp add: poalim_debit_transform_def)
  have c: "poalim_credit_transform (Str s) = Inr (Num (Fin (10 * of_nat ?n)))"
    using poalim_amount_digits [OF assms, of 10] by (simp add: poalim_credit_transform_def)
  have e: "poalim_debit_transform (Str []) = Inr Null"
    by (simp add: poalim_debit_transform_def poalim_amount_empty)
  have debit: "field_of Amount (poalim_transform_row row) = Inr (Num (Fin (- 10 * of_nat ?n)))"
    if "get_prop row he_debit = Str s \<and> ?n \<noteq> 0"
    using that d by (intro poalim_first_writer [of row s]) simp_all
  have credit: "field_of Amount (poalim_transform_row row) = Inr (Num (Fin (10 * of_nat ?n)))"
    if "get_prop row he_credit = Str s
        \<and> (get_prop row he_debit = Undefined \<or> get_prop row he_debit = Str [])"
    using that e c poalim_later_fills [of row "[]" Null s] by auto
  from debit credit show ?thesis by blast
qed

text \<open>The rows of the analyzer's tests, without and with a dot.\<close>

theorem poalim_amount_is_ten_times_digits_witness:
  "field_of Amount (poalim_transform_row poalim_debit_row) = Inr (Num (Fin (- 2000)))
   \<and> field_of Amount (poalim_transform_row poalim_credit_row) = Inr (Num (Fin 50000))
   \<and> field_of Amount (poalim_transform_row poalim_dotted_debit_row) = Inr (Num (Fin (- 10000)))
   \<and> field_of Amount (poalim_transform_row poalim_dotted_credit_row) = Inr (Num (Fin 25000))"
proof -
  have v: "remove1 46 (js ''200'') = js ''200''" "remove1 46 (js ''5000'') = js ''5000''"
    "remove1 46 (js ''1.000'') = js ''1000''" "remove1 46 (js ''2.500'') = js ''2500''"
    by (simp_all add: js_def)
  have n: "digits_val 10 (js ''200'') = 200" "digits_val 10 (js ''5000'') = 5000"
    "digits_val 10 (js ''1000'') = 1000" "digits_val 10 (js ''2500'') = 2500"
    by (simp_all add: js_def digits_val_def digit_in_def)
  have g: "\<forall>c\<in>set (js ''200''). is_digit c" "\<forall>c\<in>set (js ''5000''). is_digit c"
    "\<forall>c\<in>set (js ''1000''). is_digit c" "\<forall>c\<in>set (js ''2500''). is_digit c"
    by (simp_all add: js_def is_digit_def)
  have l: "js ''200'' \<noteq> [] \<and> length (js ''200'') \<le> 15" "js ''5000'' \<noteq> [] \<and> length (js ''5000'') \<le> 15"
    "js ''1000'' \<noteq> [] \<and> length (js ''1000'') \<le> 15" "js ''2500'' \<noteq> [] \<and> length (js ''2500'') \<le> 15"
    by (simp_all add: js_def)
  have r1: "get_prop poalim_debit_row he_debit = Str (js ''200'')"
    and r2: "get_prop poalim_credit_row he_credit = Str (js ''5000'')
             \<and> get_prop poalim_credit_row he_debit = Str []"
    and r3: "get_prop poalim_dotted_debit_row he_debit = Str (js ''1.000'')"
    and r4: "get_prop poalim_dotted_credit_row he_credit = Str (js ''2.500'')
             \<and> get_prop poalim_dotted_credit_row he_debit = Str []"
    by (simp_all add: get_prop_def poalim_debit_row_def poalim_credit_row_def
        poalim_dotted_debit_row_def poalim_dotted_credit_row_def he_date_def he_debit_def
        he_credit_def)
  have a1: "field_of Amount (poalim_transform_row poalim_debit_row) = Inr (Num (Fin (- 2000)))"
    using poalim_amount_is_ten_times_digits [of "js ''200''" poalim_debit_row] v n g l r1
    by simp
  have a2: "field_of Amount (poalim_transform_row poalim_credit_row) = Inr (Num (Fin 50000))"
    using poalim_amount_is_ten_times_digits [of "js ''5000''" poalim_credit_row] v n g l r2
    by simp
  have a3: "field_of Amount (poalim_transform_row poalim_dotted_debit_row)
              = Inr (Num (Fin (- 10000)))"
    using poalim_amount_is_ten_times_digits [of "js ''1.000''" poalim_dotted_debit_row] v n g l r3
    by simp
  have a4: "field_of Amount (poalim_transform_row poalim_dotted_credit_row)
              = Inr (Num (Fin 25000))"
    using poalim_amount_is_ten_times_digits [of "js ''2.500''" poalim_dotted_credit_row] v n g l r4
    by simp
  from a1 a2 a3 a4 show ?thesis by blast
qed

subsection \<open>Splitting and trimming\<close>

lemma split_acc_no_sep: "sep \<notin> set a \<Longrightarrow> split_acc sep cur a = [rev cur @ a]"
  by (induction a arbitrary: cur) auto

lemma split_acc_sep:
  "sep \<notin> set a \<Longrightarrow> split_acc sep cur (a @ sep # rest) = (rev cur @ a) # split_acc sep [] rest"
  by (induction a arbitrary: cur) auto

lemma split_none: "sep \<notin> set a \<Longrightarrow> split a sep = [a]"
  by (simp add: split_def split_acc_no_sep)

lemma split_two:
  "sep \<notin> set a \<Longrightarrow> sep \<notin> set b \<Longrightarrow> split (a @ sep # b) sep = [a, b]"
  by (simp add: split_def split_acc_sep split_acc_no_sep)

lemma split_three:
  "sep \<notin> set a \<Longrightarrow> sep \<notin> set b \<Longrightarrow> sep \<notin> set c \<Longrightarrow>
     split (a @ sep # b @ sep # c) sep = [a, b, c]"
  by (simp add: split_def split_acc_sep split_acc_no_sep)

lemma split_acc_nonempty: "split_acc sep cur s \<noteq> []"
  by (induction s arbitrary: cur) auto

lemma split_acc_length: "sep \<in> set s \<Longrightarrow> 2 \<le> length (split_acc sep cur s)"
proof (induction s arbitrary: cur)
  case Nil then show ?case by simp
next
  case (Cons c cs)
  show ?case
  proof (cases "c = sep")
    case True
    have "split_acc sep [] cs \<noteq> []" by (rule split_acc_nonempty)
    then have "1 \<le> length (split_acc sep [] cs)" by (cases "split_acc sep [] cs") auto
    with True show ?thesis by simp
  next
    case False
    with Cons show ?thesis by auto
  qed
qed

lemma split_length: "sep \<in> set s \<Longrightarrow> 2 \<le> length (split s sep)"
  by (simp add: split_def split_acc_length)

lemma dropWhile_keeps: "x \<in> set xs \<Longrightarrow> \<not> P x \<Longrightarrow> x \<in> set (dropWhile P xs)"
  by (induction xs) auto

lemma trim_keeps: "x \<in> set s \<Longrightarrow> \<not> is_ws x \<Longrightarrow> x \<in> set (trim s)"
  by (simp add: trim_def dropWhile_keeps)

lemma iso_template_Some:
  "iso_template y (Some m) (Some d) = Inr (Str (y @ js ''-'' @ padStart2 m @ js ''-'' @ padStart2 d))"
  by (simp add: iso_template_def pad_component_def)

lemma mizrahi_date_total: "\<exists>w. mizrahi_date_transform (Str s) = Inr w"
proof (cases "s = [] \<or> 47 \<notin> set s")
  case True
  then show ?thesis by (auto simp: mizrahi_date_transform_def)
next
  case False
  then have "47 \<in> set (trim s)" by (intro trim_keeps) (auto simp: is_ws_def)
  then have "2 \<le> length (split (trim s) 47)" by (rule split_length)
  then have "nth_opt (split (trim s) 47) 1 = Some (split (trim s) 47 ! 1)"
    "nth_opt (split (trim s) 47) 0 = Some (split (trim s) 47 ! 0)"
    by (auto simp add: nth_opt_def)
  with False show ?thesis
    by (simp add: mizrahi_date_transform_def Let_def iso_template_Some)
qed

subsection \<open>Two columns for one amount\<close>

lemma he_distinct:
  "he_date \<noteq> he_credit" "he_date \<noteq> he_debit" "he_txn_type \<noteq> he_credit" "he_txn_type \<noteq> he_debit"
  "he_debit \<noteq> he_credit" "he_ref \<noteq> he_credit" "he_ref \<noteq> he_debit" "he_credit \<noteq> he_debit"
  by (simp_all add: he_date_def he_credit_def he_debit_def he_txn_type_def he_ref_def)

lemma mizrahi_amount_total: "\<exists>n. mizrahi_amount k (Str s) = Inr (Num n)"
  by (auto simp: mizrahi_amount_def)

lemma has_value_defined: "has_value numstr v \<Longrightarrow> v \<noteq> Undefined"
  by (auto simp: has_value_def)

lemma mizrahi_credit_wins:
  assumes "has_value numstr (get_prop row he_credit)"
  shows "field_of Amount (mizrahi_transform_row numstr row)
           = mizrahi_credit_transform (Str (to_string numstr (get_prop row he_credit)))"
proof -
  obtain n where n: "mizrahi_amount 1000 (Str (to_string numstr (get_prop row he_credit))) = Inr (Num n)"
    using mizrahi_amount_total by blast
  obtain n' where n': "mizrahi_amount (- 1000) (Str (to_string numstr (get_prop row he_debit))) = Inr (Num n')"
    using mizrahi_amount_total by blast
  obtain w where w: "mizrahi_date_transform (Str (to_string numstr (get_prop row he_date))) = Inr w"
    using mizrahi_date_total by blast
  have c: "get_prop row he_credit \<noteq> Undefined" using assms by (rule has_value_defined)
  show ?thesis
    using assms n n' w c
    by (simp add: mizrahi_transform_row_def MIZRAHI_TFAHOT_FIELD_MAPPINGS_def Let_def he_distinct
        field_of_def mizrahi_refill_def mizrahi_credit_transform_def mizrahi_debit_transform_def
        mizrahi_initial_def)
qed

lemma mizrahi_debit_only:
  assumes "has_value numstr (get_prop row he_debit)" and "\<not> has_value numstr (get_prop row he_credit)"
  shows "field_of Amount (mizrahi_transform_row numstr row)
           = mizrahi_debit_transform (Str (to_string numstr (get_prop row he_debit)))"
proof -
  obtain n' where n': "mizrahi_amount (- 1000) (Str (to_string numstr (get_prop row he_debit))) = Inr (Num n')"
    using mizrahi_amount_total by blast
  obtain w where w: "mizrahi_date_transform (Str (to_string numstr (get_prop row he_date))) = Inr w"
    using mizrahi_date_total by blast
  have c: "get_prop row he_debit \<noteq> Undefined" using assms(1) by (rule has_value_defined)
  show ?thesis
    using assms n' w c
    by (simp add: mizrahi_transform_row_def MIZRAHI_TFAHOT_FIELD_MAPPINGS_def Let_def he_distinct
        field_of_def mizrahi_refill_def mizrahi_credit_transform_def mizrahi_debit_transform_def
        mizrahi_initial_def)
qed

text \<open>
  C5, amended. In the Poalim loop the first mapping whose result is truthy keeps the
  amount: a debit cell whose transform gives a non-zero number decides, whatever the
  credit cell holds; when the debit cell is absent or its transform gives \<open>null\<close> or
  \<open>0\<close>, the credit cell's transform decides. In the Mizrahi Tfahot transform a filled
  credit cell decides whether or not the debit cell is filled (the mapping listed later
  wins), and a filled debit cell decides when the credit cell is not filled.
\<close>

theorem two_amount_columns:
  "(get_prop row he_debit = Str sd \<and> poalim_debit_transform (Str sd) = Inr w \<and> truthy w \<longrightarrow>
      field_of Amount (poalim_transform_row row) = Inr w)
   \<and> ((get_prop row he_debit = Undefined
        \<or> (get_prop row he_debit = Str sd \<and> poalim_debit_transform (Str sd) = Inr w \<and> \<not> truthy w))
       \<and> get_prop row he_credit = Str sc \<longrightarrow>
      field_of Amount (poalim_transform_row row) = poalim_credit_transform (Str sc))
   \<and> (has_value numstr (get_prop row he_credit) \<longrightarrow>
      field_of Amount (mizrahi_transform_row numstr row)
        = mizrahi_credit_transform (Str (to_string numstr (get_prop row he_credit))))
   \<and> (has_value numstr (get_prop row he_debit) \<and> \<not> has_value numstr (get_prop row he_credit) \<longrightarrow>
      field_of Amount (mizrahi_transform_row numstr row)
        = mizrahi_debit_transform (Str (to_string numstr (get_prop row he_debit))))"
  using poalim_first_writer [of row sd w] poalim_later_fills [of row sd w sc]
    mizrahi_credit_wins [of numstr row] mizrahi_debit_only [of numstr row]
  by blast

lemmas mizrahi_eval =
  mizrahi_transform_row_def MIZRAHI_TFAHOT_FIELD_MAPPINGS_def Let_def field_of_def
  mizrahi_refill_def mizrahi_credit_transform_def mizrahi_debit_transform_def mizrahi_initial_def
  mizrahi_amount_def mizrahi_date_transform_def has_value_def get_prop_def js_Number_def trim_def
  radix_prefix_def str_decimal_literal_def read_exponent_def scale10_def startsWith_def
  is_ws_def is_digit_def digits_val_def digit_in_def js_def split_def iso_template_def
  pad_component_def padStart2_def template_part_def nth_opt_def
  he_date_def he_credit_def he_debit_def he_txn_type_def he_ref_def double_eval

text \<open>
  C5, as stated, fails on the row of the Mizrahi Tfahot test that fills both columns:
  the debit mapping is listed first and its transform gives \<open>-300000\<close>, which is no
  sentinel, yet the amount is the credit's \<open>500000\<close>.
\<close>

theorem mizrahi_both_filled_credit_wins:
  "field_of Amount (mizrahi_transform_row print_nothing mizrahi_both_row) = Inr (Num (Fin 500000))
   \<and> mizrahi_debit_transform (Str (js ''300'')) = Inr (Num (Fin (- 300000)))"
  by (simp add: mizrahi_eval mizrahi_both_row_def)

text \<open>The four cases at the rows of the analyzers' tests.\<close>

theorem two_amount_columns_witness:
  "field_of Amount (poalim_transform_row poalim_debit_row) = Inr (Num (Fin (- 2000)))
   \<and> field_of Amount (poalim_transform_row poalim_credit_row) = Inr (Num (Fin 50000))
   \<and> field_of Amount (mizrahi_transform_row print_nothing mizrahi_both_row) = Inr (Num (Fin 500000))
   \<and> field_of Amount (mizrahi_transform_row print_nothing mizrahi_debit_row) = Inr (Num (Fin (- 500000)))"
proof -
  have p1: "get_prop poalim_debit_row he_debit = Str (js ''200'')
      \<and> poalim_debit_transform (Str (js ''200'')) = Inr (Num (Fin (- 2000)))
      \<and> truthy (Num (Fin (- 2000)))"
    by (simp add: poalim_eval poalim_debit_row_def)
  have p2: "get_prop poalim_credit_row he_debit = Str []
      \<and> poalim_debit_transform (Str []) = Inr Null \<and> \<not> truthy Null
      \<and> get_prop poalim_credit_row he_credit = Str (js ''5000'')
      \<and> poalim_credit_transform (Str (js ''5000'')) = Inr (Num (Fin 50000))"
    by (simp add: poalim_eval poalim_credit_row_def)
  have m1: "has_value print_nothing (get_prop mizrahi_both_row he_credit)
      \<and> mizrahi_credit_transform (Str (to_string print_nothing (get_prop mizrahi_both_row he_credit)))
          = Inr (Num (Fin 500000))"
    by (simp add: mizrahi_eval mizrahi_both_row_def)
  have m2: "has_value print_nothing (get_prop mizrahi_debit_row he_debit)
      \<and> \<not> has_value print_nothing (get_prop mizrahi_debit_row he_credit)
      \<and> mizrahi_debit_transform (Str (to_string print_nothing (get_prop mizrahi_debit_row he_debit)))
          = Inr (Num (Fin (- 500000)))"
    by (simp add: mizrahi_eval mizrahi_debit_row_def)
  show ?thesis
    using two_amount_columns [of poalim_debit_row "js ''200''" "Num (Fin (- 2000))"]
      two_amount_columns [of poalim_credit_row "[]" Null "js ''5000''"]
      two_amount_columns [of mizrahi_both_row _ _ _ print_nothing]
      two_amount_columns [of mizrahi_debit_row _ _ _ print_nothing]
      p1 p2 m1 m2
    by simp
qed

lemma padStart2_short: "length s = 1 \<Longrightarrow> padStart2 s = 48 # s"
  by (simp add: padStart2_def)

lemma padStart2_long: "2 \<le> length s \<Longrightarrow> padStart2 s = s"
  by (simp add: padStart2_def)

lemma sep_in: "sep \<in> set (d @ sep # rest)" by simp

text \<open>
  On a text of its own format each date transform gives the ISO date: Cal turns
  \<open>d/m/y\<close> with three non-empty components into \<open>20y-mm-dd\<close>, Isracard turns \<open>d/m/y\<close>
  into \<open>y-mm-dd\<close>, Max turns \<open>d-m-y\<close> into \<open>y-mm-dd\<close>, day and month padded with \<open>0\<close>
  to two code units. A text without the vendor's separator and a value that is not a
  string are returned unchanged; Cal also returns unchanged a text of two components only.
\<close>

theorem date_transform_formats:
  "(47 \<notin> set d \<and> 47 \<notin> set m \<and> 47 \<notin> set y \<and> d \<noteq> [] \<and> m \<noteq> [] \<and> y \<noteq> [] \<longrightarrow>
      cal_date_transform (Str (d @ 47 # m @ 47 # y))
        = Inr (Str (js ''20'' @ y @ js ''-'' @ padStart2 m @ js ''-'' @ padStart2 d)))
   \<and> (47 \<notin> set d \<and> 47 \<notin> set m \<and> 47 \<notin> set y \<longrightarrow>
      isracard_date_transform (Str (d @ 47 # m @ 47 # y))
        = Inr (Str (y @ js ''-'' @ padStart2 m @ js ''-'' @ padStart2 d)))
   \<and> (45 \<notin> set d \<and> 45 \<notin> set m \<and> 45 \<notin> set y \<longrightarrow>
      max_date_transform (Str (d @ 45 # m @ 45 # y))
        = Inr (Str (y @ js ''-'' @ padStart2 m @ js ''-'' @ padStart2 d)))
   \<and> (47 \<notin> set s \<longrightarrow>
      cal_date_transform (Str s) = Inr (Str s) \<and> isracard_date_transform (Str s) = Inr (Str s))
   \<and> (45 \<notin> set s \<longrightarrow> max_date_transform (Str s) = Inr (Str s))
   \<and> ((\<forall>t. v \<noteq> Str t) \<longrightarrow>
      cal_date_transform v = Inr v \<and> isracard_date_transform v = Inr v
      \<and> max_date_transform v = Inr v)
   \<and> (47 \<notin> set d \<and> 47 \<notin> set m \<longrightarrow>
      cal_date_transform (Str (d @ 47 # m)) = Inr (Str (d @ 47 # m)))"
proof (intro conjI impI)
  assume "47 \<notin> set d \<and> 47 \<notin> set m \<and> 47 \<notin> set y \<and> d \<noteq> [] \<and> m \<noteq> [] \<and> y \<noteq> []"
  then show "cal_date_transform (Str (d @ 47 # m @ 47 # y))
        = Inr (Str (js ''20'' @ y @ js ''-'' @ padStart2 m @ js ''-'' @ padStart2 d))"
    by (simp add: cal_date_transform_def split_three nth_opt_def missing_def iso_template_Some
        template_part_def)
next
  assume "47 \<notin> set d \<and> 47 \<notin> set m \<and> 47 \<notin> set y"
  then show "isracard_date_transform (Str (d @ 47 # m @ 47 # y))
        = Inr (Str (y @ js ''-'' @ padStart2 m @ js ''-'' @ padStart2 d))"
    by (simp add: isracard_date_transform_def split_three nth_opt_def iso_template_Some
        template_part_def)
next
  assume "45 \<notin> set d \<and> 45 \<notin> set m \<and> 45 \<notin> set y"
  then show "max_date_transform (Str (d @ 45 # m @ 45 # y))
        = Inr (Str (y @ js ''-'' @ padStart2 m @ js ''-'' @ padStart2 d))"
    by (simp add: max_date_transform_def split_three nth_opt_def iso_template_Some
        template_part_def)
next
  assume "47 \<notin> set s"
  then show "cal_date_transform (Str s) = Inr (Str s)"
    by (simp add: cal_date_transform_def)
next
  assume "47 \<notin> set s"
  then show "isracard_date_transform (Str s) = Inr (Str s)"
    by (simp add: isracard_date_transform_def)
next
  assume "45 \<notin> set s"
  then show "max_date_transform (Str s) = Inr (Str s)"
    by (simp add: max_date_transform_def)
next
  assume "\<forall>t. v \<noteq> Str t"
  then show "cal_date_transform v = Inr v" by (cases v) (simp_all add: cal_date_transform_def)
next
  assume "\<forall>t. v \<noteq> Str t"
  then show "isracard_date_transform v = Inr v" by (cases v) (simp_all add: isracard_date_transform_def)
next
  assume "\<forall>t. v \<noteq> Str t"
  then show "max_date_transform v = Inr v" by (cases v) (simp_all add: max_date_transform_def)
next
  assume "47 \<notin> set d \<and> 47 \<notin> set m"
  then show "cal_date_transform (Str (d @ 47 # m)) = Inr (Str (d @ 47 # m))"
    by (simp add: cal_date_transform_def split_two nth_opt_def missing_def)
qed

text \<open>The dates of the analyzers' tests.\<close>

theorem date_transform_formats_witness:
  "cal_date_transform (Str (js ''5/4/25'')) = Inr (Str (js ''2025-04-05''))
   \<and> isracard_date_transform (Str (js ''15/04/2025'')) = Inr (Str (js ''2025-04-15''))
   \<and> max_date_transform (Str (js ''15-04-2025'')) = Inr (Str (js ''2025-04-15''))
   \<and> cal_date_transform (Str (js ''invalid-date'')) = Inr (Str (js ''invalid-date''))
   \<and> isracard_date_transform (Str (js ''invalid-date'')) = Inr (Str (js ''invalid-date''))
   \<and> max_date_transform (Str (js ''20250415'')) = Inr (Str (js ''20250415''))
   \<and> cal_date_transform (Num (Fin 12345)) = Inr (Num (Fin 12345))
   \<and> cal_date_transform (Str (js ''15/04'')) = Inr (Str (js ''15/04''))"
proof -
  have h: "47 \<notin> set (js ''5'') \<and> 47 \<notin> set (js ''4'') \<and> 47 \<notin> set (js ''25'')
      \<and> js ''5'' \<noteq> [] \<and> js ''4'' \<noteq> [] \<and> js ''25'' \<noteq> []
      \<and> 47 \<notin> set (js ''15'') \<and> 47 \<notin> set (js ''04'') \<and> 47 \<notin> set (js ''2025'')
      \<and> 45 \<notin> set (js ''15'') \<and> 45 \<notin> set (js ''04'') \<and> 45 \<notin> set (js ''2025'')
      \<and> 47 \<notin> set (js ''invalid-date'') \<and> 45 \<notin> set (js ''20250415'')
      \<and> (\<forall>t. Num (Fin 12345) \<noteq> Str t)"
    by (simp add: js_def)
  have e: "js ''5'' @ 47 # js ''4'' @ 47 # js ''25'' = js ''5/4/25''"
    "js ''15'' @ 47 # js ''04'' @ 47 # js ''2025'' = js ''15/04/2025''"
    "js ''15'' @ 45 # js ''04'' @ 45 # js ''2025'' = js ''15-04-2025''"
    "js ''15'' @ 47 # js ''04'' = js ''15/04''"
    "js ''20'' @ js ''25'' @ js ''-'' @ padStart2 (js ''4'') @ js ''-'' @ padStart2 (js ''5'') = js ''2025-04-05''"
    "js ''2025'' @ js ''-'' @ padStart2 (js ''04'') @ js ''-'' @ padStart2 (js ''15'') = js ''2025-04-15''"
    by (simp_all add: js_def padStart2_def)
  show ?thesis
    using date_transform_formats [of "js ''5''" "js ''4''" "js ''25''" "js ''invalid-date''" "Num (Fin 12345)"]
      date_transform_formats [of "js ''15''" "js ''04''" "js ''2025''" "js ''20250415''" "Num (Fin 12345)"]
      h e
    by simp
qed

text \<open>
  C4. The text \<open>invalid-date\<close> holds the separator of Max and splits into two
  components, not three. The Max transform does not return it unchanged, as its test
  ``should correctly transform date format'' expects: the year is \<open>undefined\<close> and
  the result is the text \<open>undefined-date-invalid\<close>. Isracard's transform does the same
  with \<open>04/2025\<close>. Cal's transform, given two components, returns the text unchanged.
\<close>

theorem max_date_of_two_components:
  "max_date_transform (Str (js ''invalid-date'')) = Inr (Str (js ''undefined-date-invalid''))
   \<and> max_date_transform (Str (js ''invalid-date'')) \<noteq> Inr (Str (js ''invalid-date''))
   \<and> isracard_date_transform (Str (js ''04/2025'')) = Inr (Str (js ''undefined-2025-04''))
   \<and> cal_date_transform (Str (js ''04/2025'')) = Inr (Str (js ''04/2025''))"
  by (simp add: max_date_transform_def isracard_date_transform_def cal_date_transform_def
      js_def split_def nth_opt_def iso_template_def pad_component_def padStart2_def
      template_part_def missing_def)

subsection \<open>Rows whose amount does not parse\<close>

lemma sequence_sum_map_total:
  assumes "\<forall>x\<in>set xs. \<exists>y. f x = Inr y"
  shows "\<exists>ys. sequence_sum (map f xs) = Inr ys \<and> length ys = length xs
           \<and> (\<forall>i<length xs. f (xs ! i) = Inr (ys ! i))"
  using assms
proof (induction xs)
  case Nil
  then show ?case by simp
next
  case (Cons x xs)
  then obtain y where y: "f x = Inr y" by auto
  from Cons obtain ys where ys: "sequence_sum (map f xs) = Inr ys" "length ys = length xs"
    "\<forall>i<length xs. f (xs ! i) = Inr (ys ! i)" by auto
  have "\<forall>i<length (x # xs). f ((x # xs) ! i) = Inr ((y # ys) ! i)"
    using y ys(3) by (auto simp: nth_Cons split: nat.splits)
  with y ys show ?case by auto
qed

lemma normalized_sources:
  "normalizeHeaderString he_txn_date = he_txn_date"
  "normalizeHeaderString he_merchant = he_merchant"
  "normalizeHeaderString he_charge = he_charge"
  "normalizeHeaderString he_notes = he_notes"
  by (simp_all add: normalizeHeaderString_def trim_def is_ws_def he_txn_date_def he_merchant_def
      he_charge_def he_notes_def)

lemma cal_sources_distinct:
  "he_notes \<noteq> he_charge" "he_merchant \<noteq> he_charge" "he_txn_date \<noteq> he_charge"
  "he_notes \<noteq> he_merchant" "he_notes \<noteq> he_txn_date" "he_merchant \<noteq> he_txn_date"
  by (simp_all add: he_txn_date_def he_merchant_def he_charge_def he_notes_def)

lemma headerMapping_get_eq:
  "headerMapping_get numstr key =
     (if key = he_notes then Some \<lparr>source = he_notes, target = Memo, transform = None\<rparr>
      else if key = he_charge
        then Some \<lparr>source = he_charge, target = Amount, transform = Some (cal_amount_transform numstr)\<rparr>
      else if key = he_merchant
        then Some \<lparr>source = he_merchant, target = Payee_name, transform = None\<rparr>
      else if key = he_txn_date
        then Some \<lparr>source = he_txn_date, target = Date, transform = Some cal_date_transform\<rparr>
      else None)"
  by (simp add: headerMapping_get_def CAL_FIELD_MAPPINGS_def normalized_sources)

lemma cal_date_total: "\<exists>w. cal_date_transform v = Inr w"
proof (cases v)
  case (Str s)
  show ?thesis
  proof (cases "s = [] \<or> 47 \<notin> set s
      \<or> missing (nth_opt (split s 47) 0) \<or> missing (nth_opt (split s 47) 1)
      \<or> missing (nth_opt (split s 47) 2)")
    case True
    then show ?thesis using Str by (auto simp: cal_date_transform_def Let_def)
  next
    case False
    then obtain a b where "nth_opt (split s 47) 0 = Some a" "nth_opt (split s 47) 1 = Some b"
      by (auto simp: missing_def split: option.splits)
    with False Str show ?thesis
      by (simp add: cal_date_transform_def Let_def iso_template_def pad_component_def)
  qed
qed (simp_all add: cal_date_transform_def)

lemma cal_amount_total: "\<exists>w. cal_amount_transform numstr v = Inr w"
  by (simp add: cal_amount_transform_def Let_def)

lemma cal_apply_total: "\<exists>t. cal_apply numstr es acc = Inr t"
proof (induction es arbitrary: acc)
  case Nil
  then show ?case by simp
next
  case (Cons e es)
  obtain k v where e: "e = (k, v)" by (cases e)
  obtain w1 where w1: "cal_date_transform v = Inr w1" using cal_date_total by blast
  obtain w2 where w2: "cal_amount_transform numstr v = Inr w2" using cal_amount_total by blast
  show ?case using Cons e w1 w2
    by (simp add: headerMapping_get_eq apply_transform_def)
qed

lemma cal_apply_other:
  assumes "\<forall>e\<in>set es. normalizeHeaderString (fst e) \<noteq> he_charge"
    and "cal_apply numstr es acc = Inr t"
  shows "t Amount = acc Amount"
  using assms
proof (induction es arbitrary: acc)
  case Nil
  then show ?case by simp
next
  case (Cons e es)
  obtain k v where e: "e = (k, v)" by (cases e)
  obtain w1 where w1: "cal_date_transform v = Inr w1" using cal_date_total by blast
  from Cons.prems(1) e have k: "normalizeHeaderString k \<noteq> he_charge" by simp
  from Cons.prems(1) have rest: "\<forall>e\<in>set es. normalizeHeaderString (fst e) \<noteq> he_charge" by simp
  from Cons.prems(2) e k w1 show ?case
    using Cons.IH [OF rest]
    by (auto simp add: headerMapping_get_eq apply_transform_def split: if_splits)
qed

lemma cal_apply_amount:
  assumes "distinct (map (\<lambda>e. normalizeHeaderString (fst e)) es)"
    and "(k, v) \<in> set es" and "normalizeHeaderString k = he_charge"
    and "cal_amount_transform numstr v = Inr w"
    and "cal_apply numstr es acc = Inr t"
  shows "t Amount = w"
  using assms
proof (induction es arbitrary: acc)
  case Nil
  then show ?case by simp
next
  case (Cons e es)
  obtain k' v' where e: "e = (k', v')" by (cases e)
  show ?case
  proof (cases "(k, v) = e")
    case True
    then have kv: "k' = k" "v' = v" using e by auto
    have rest: "\<forall>e\<in>set es. normalizeHeaderString (fst e) \<noteq> he_charge"
      using Cons.prems(1,3) e kv by (auto simp: image_iff)
    have run: "cal_apply numstr es (acc(Amount := w)) = Inr t"
      using Cons.prems(3,4,5) e kv
      by (simp add: headerMapping_get_eq apply_transform_def cal_sources_distinct
          cal_sources_distinct [symmetric])
    from cal_apply_other [OF rest run] show ?thesis by simp
  next
    case False
    then have mem: "(k, v) \<in> set es" using Cons.prems(2) by auto
    have d: "distinct (map (\<lambda>e. normalizeHeaderString (fst e)) es)" using Cons.prems(1) by simp
    obtain w1 where w1: "cal_date_transform v' = Inr w1" using cal_date_total by blast
    obtain w2 where w2: "cal_amount_transform numstr v' = Inr w2" using cal_amount_total by blast
    from Cons.prems(5) e w1 w2 show ?thesis
      using Cons.IH [OF d mem Cons.prems(3) Cons.prems(4)]
      by (auto simp add: headerMapping_get_eq apply_transform_def split: if_splits)
  qed
qed

lemma cal_transform_row_total: "\<exists>t. cal_transform_row numstr row = Inr t"
  using cal_apply_total [of numstr row cal_initial] by (auto simp: cal_transform_row_def)

lemma cal_transform_row_amount:
  assumes "distinct (map (\<lambda>e. normalizeHeaderString (fst e)) row)"
    and "(k, v) \<in> set row" and "normalizeHeaderString k = he_charge"
    and "cal_amount_transform numstr v = Inr w"
    and "cal_transform_row numstr row = Inr t"
  shows "t Amount = w"
proof -
  obtain t0 where t0: "cal_apply numstr row cal_initial = Inr t0"
    using cal_apply_total by blast
  have "t0 Amount = w" using cal_apply_amount [OF assms(1-4) t0] .
  with t0 assms(5) show ?thesis by (auto simp: cal_transform_row_def split: if_splits)
qed

lemma cal_amount_unparsable:
  assumes "s \<noteq> []" and "s = he_not_number \<or> parseFloat (strip_currency s) = NaN"
  shows "cal_amount_transform numstr (Str s) = Inr Null"
  using assms by (auto simp: cal_amount_transform_def Let_def)

text \<open>
  C6, amended. The Cal analyzer drops no row: it returns one transformed row for each
  raw row, and a row whose amount cell holds the sentinel, or any other non-empty text
  that \<open>parseFloat\<close> cannot read after the currency sign, white space and commas are
  removed, is emitted with the amount \<open>null\<close> (not \<open>0\<close>, not \<open>NaN\<close>). The keys of a raw
  row are distinct normalized headers.
\<close>

theorem cal_keeps_rows_with_unparsable_amount:
  assumes "\<forall>row\<in>set rows. distinct (map (\<lambda>e. normalizeHeaderString (fst e)) row)"
  shows "\<exists>out. cal_transform_rows numstr rows = Inr out \<and> length out = length rows
           \<and> (\<forall>i<length rows. \<forall>k s.
                 (k, Str s) \<in> set (rows ! i) \<and> normalizeHeaderString k = he_charge \<and> s \<noteq> []
                 \<and> (s = he_not_number \<or> parseFloat (strip_currency s) = NaN)
                 \<longrightarrow> (out ! i) Amount = Null)"
proof -
  have "\<forall>row\<in>set rows. \<exists>t. cal_transform_row numstr row = Inr t"
    using cal_transform_row_total by blast
  from sequence_sum_map_total [OF this]
  obtain out where out: "sequence_sum (map (cal_transform_row numstr) rows) = Inr out"
    "length out = length rows" "\<forall>i<length rows. cal_transform_row numstr (rows ! i) = Inr (out ! i)"
    by blast
  have "(out ! i) Amount = Null"
    if "i < length rows" "(k, Str s) \<in> set (rows ! i)" "normalizeHeaderString k = he_charge"
      "s \<noteq> []" "s = he_not_number \<or> parseFloat (strip_currency s) = NaN" for i k s
  proof -
    have d: "distinct (map (\<lambda>e. normalizeHeaderString (fst e)) (rows ! i))"
      using assms that(1) by simp
    have a: "cal_amount_transform numstr (Str s) = Inr Null"
      using that(4,5) by (rule cal_amount_unparsable)
    have r: "cal_transform_row numstr (rows ! i) = Inr (out ! i)" using out(3) that(1) by simp
    show ?thesis using cal_transform_row_amount [OF d that(2) that(3) a r] .
  qed
  with out show ?thesis unfolding cal_transform_rows_def by blast
qed

lemmas cal_eval =
  cal_transform_rows_def cal_transform_row_def headerMapping_get_eq apply_transform_def
  cal_initial_def amounts_of_def cal_amount_transform_def cal_date_transform_def
  normalizeHeaderString_def trim_def strip_currency_def parseFloat_def str_decimal_literal_def
  read_exponent_def scale10_def startsWith_def is_ws_def is_digit_def digits_val_def
  digit_in_def js_def split_def iso_template_def pad_component_def padStart2_def
  template_part_def nth_opt_def missing_def Let_def
  he_txn_date_def he_merchant_def he_charge_def he_notes_def he_not_number_def double_eval

text \<open>
  C6, as stated, fails: of the three rows of the Cal test the one with the sentinel is
  not dropped, the output has three rows and its amount is \<open>null\<close>.
\<close>

theorem cal_sentinel_row_is_emitted:
  "amounts_of (cal_transform_rows print_nothing cal_test_rows)
     = Inr [Num (Fin (- 100000)), Null, Num (Fin (- 30000))]"
  by (simp add: cal_eval cal_test_rows_def)

theorem cal_keeps_rows_with_unparsable_amount_witness:
  "\<exists>out. cal_transform_rows print_nothing cal_test_rows = Inr out \<and> length out = 3
      \<and> (out ! 1) Amount = Null"
proof -
  have d: "\<forall>row\<in>set cal_test_rows. distinct (map (\<lambda>e. normalizeHeaderString (fst e)) row)"
    by (simp add: cal_test_rows_def normalizeHeaderString_def trim_def is_ws_def
        he_txn_date_def he_merchant_def he_charge_def)
  from cal_keeps_rows_with_unparsable_amount [OF d, of print_nothing]
  obtain out where o: "cal_transform_rows print_nothing cal_test_rows = Inr out"
    "length out = length cal_test_rows"
    "\<forall>i<length cal_test_rows. \<forall>k s.
        (k, Str s) \<in> set (cal_test_rows ! i) \<and> normalizeHeaderString k = he_charge \<and> s \<noteq> []
        \<and> (s = he_not_number \<or> parseFloat (strip_currency s) = NaN)
        \<longrightarrow> (out ! i) Amount = Null"
    by blast
  have m: "1 < length cal_test_rows \<and> (he_charge, Str he_not_number) \<in> set (cal_test_rows ! 1)
      \<and> normalizeHeaderString he_charge = he_charge \<and> he_not_number \<noteq> []"
    by (simp add: cal_test_rows_def normalized_sources he_not_number_def)
  from o(3) m have "(out ! 1) Amount = Null" by blast
  with o(1,2) show ?thesis by (auto simp: cal_test_rows_def)
qed

lemmas max_eval =
  max_transform_rows_def max_transform_row_def MAX_FIELD_MAPPINGS_def apply_transform_def
  empty_row_def amounts_of_def max_amount_transform_def max_date_transform_def
  strip_currency_def parseFloat_def str_decimal_literal_def get_prop_def List.map_filter_def
  read_exponent_def scale10_def startsWith_def is_ws_def is_digit_def digits_val_def
  digit_in_def js_def split_def iso_template_def pad_component_def padStart2_def
  template_part_def nth_opt_def Let_def
  he_txn_date_def he_max_merchant_def he_charge_def he_notes_def he_not_number_def double_eval

text \<open>
  The Max analyzer filters with \<open>isNaN(transformedRow.amount)\<close>, but its transform
  has already turned an unreadable amount into \<open>null\<close>, and \<open>isNaN(null)\<close> is false: the
  sentinel row stays in the output as well.
\<close>

lemma max_sentinel_row_is_emitted:
  "amounts_of (max_transform_rows max_test_rows)
     = Inr [Num (Fin (- 100000)), Null, Num (Fin (- 30000))]"
  by (simp add: max_eval max_test_rows_def)

subsection \<open>Reconciliation\<close>

lemma notes_differ: "missing_note \<noteq> extra_note"
  by (simp add: missing_note_def extra_note_def js_def)

lemma negative_abs_positive: "negative d \<Longrightarrow> abs_positive d"
  by (cases d) auto

text \<open>
  The row of \<open>AccountBalancesReport\<close>. Without a file balance (\<open>undefined\<close> or
  \<open>null\<close>) there is neither a difference nor a note. With one, the difference is
  \<open>fileBalance - cleared_balance\<close>; the note reads ``Missing transactions'' exactly when
  the difference is negative and ``Extra transactions'' exactly when it is positive, and
  there is no note when it is zero (nor when it is \<open>NaN\<close>).
\<close>

lemma reconcile_report:
  "(fileBalance a = Undefined \<or> fileBalance a = Null \<longrightarrow>
      difference (reconcile a) = None \<and> reconcileNote (reconcile a) = None)
   \<and> (fileBalance a \<noteq> Undefined \<and> fileBalance a \<noteq> Null
        \<and> d = js_minus (to_number (fileBalance a)) (Fin (cleared_balance a)) \<longrightarrow>
      difference (reconcile a) = Some d
      \<and> (reconcileNote (reconcile a) = Some missing_note \<longleftrightarrow> negative d)
      \<and> (reconcileNote (reconcile a) = Some extra_note \<longleftrightarrow> abs_positive d \<and> \<not> negative d)
      \<and> (d = Fin 0 \<longrightarrow> reconcileNote (reconcile a) = None))"
  using notes_differ negative_abs_positive by (auto simp: reconcile_def Let_def)

text \<open>
  Balances in milliunits are integers; below \<open>2^53\<close> their difference is exact.
\<close>

lemma reconcile_milliunits:
  assumes "fileBalance a = Num (Fin (of_int f))" and "cleared_balance a = of_int c"
    and "\<bar>f - c\<bar> < 2 ^ 53"
  shows "difference (reconcile a) = Some (Fin (of_int (f - c)))"
  using assms double_of_int [of "f - c"] by (simp add: reconcile_def Let_def)

text \<open>
  The example of the specification: file balance 14800000 against cleared balance
  14500000 gives the difference 300000 and the note ``Extra transactions''; and an
  account without file balance shows neither.
\<close>

lemma reconcile_example:
  "reconcile example_account
     = \<lparr>difference = Some (Fin 300000), reconcileNote = Some extra_note\<rparr>
   \<and> reconcile account_without_file_balance = \<lparr>difference = None, reconcileNote = None\<rparr>"
  by (simp add: reconcile_def example_account_def account_without_file_balance_def Let_def
      double_eval)

text \<open>
  The report inside \<open>FileUploadWithYNAB.tsx\<close> gives the same row from the scaled
  balance when the file balance is a number, and nothing when it is \<open>undefined\<close>.
\<close>

lemma reconcile_inline_report:
  "(fileBalance a = Undefined \<longrightarrow>
      difference (reconcile_inline a) = None \<and> reconcileNote (reconcile_inline a) = None)
   \<and> (fileBalance a \<noteq> Undefined
        \<and> d = js_minus (times_const (to_number (fileBalance a)) 1000) (Fin (cleared_balance a)) \<longrightarrow>
      difference (reconcile_inline a) = Some d
      \<and> (reconcileNote (reconcile_inline a) = Some missing_note \<longleftrightarrow> negative d)
      \<and> (reconcileNote (reconcile_inline a) = Some extra_note \<longleftrightarrow> abs_positive d \<and> \<not> negative d)
      \<and> (d = Fin 0 \<longrightarrow> reconcileNote (reconcile_inline a) = None))"
  using notes_differ negative_abs_positive by (auto simp: reconcile_inline_def Let_def)

text \<open>
  C3. An account whose file gave the balance \<open>null\<close> has no file balance, and
  \<open>AccountBalancesReport\<close> shows neither difference nor note for it. The report inside
  \<open>FileUploadWithYNAB.tsx\<close> multiplies first, \<open>null * 1000\<close> is \<open>0\<close>, and it shows the
  difference \<open>0 - cleared_balance\<close> with the note ``Missing transactions''.
\<close>

theorem inline_report_takes_null_for_zero:
  "reconcile_inline account_with_null_file_balance
     = \<lparr>difference = Some (Fin (- 14500000)), reconcileNote = Some missing_note\<rparr>
   \<and> reconcile account_with_null_file_balance = \<lparr>difference = None, reconcileNote = None\<rparr>"
  by (simp add: reconcile_inline_def reconcile_def account_with_null_file_balance_def Let_def
      double_eval)

subsection \<open>A statement without a balance\<close>

lemma mizrahi_apply_total:
  assumes "\<forall>m\<in>set ms. \<forall>f s. transform m = Some f \<longrightarrow> (\<exists>w. f (Str s) = Inr w)"
  shows "\<exists>t. mizrahi_apply numstr hasC hasD ms row acc = Inr t"
  using assms
proof (induction ms arbitrary: acc)
  case Nil
  then show ?case by simp
next
  case (Cons m ms)
  then have rest: "\<And>acc. \<exists>t. mizrahi_apply numstr hasC hasD ms row acc = Inr t" by simp
  have "\<exists>w. (case transform m of None \<Rightarrow> Inr (get_prop row (source m))
                | Some f \<Rightarrow> f (Str (to_string numstr (get_prop row (source m))))) = Inr w"
    using Cons.prems by (cases "transform m") auto
  then obtain w where w: "(case transform m of None \<Rightarrow> Inr (get_prop row (source m))
                | Some f \<Rightarrow> f (Str (to_string numstr (get_prop row (source m))))) = Inr w"
    by blast
  show ?case using rest w by (cases hasC; cases hasD) (simp_all add: Let_def)
qed

lemma mizrahi_mappings_total:
  "\<forall>m\<in>set MIZRAHI_TFAHOT_FIELD_MAPPINGS. \<forall>f s. transform m = Some f \<longrightarrow> (\<exists>w. f (Str s) = Inr w)"
  using mizrahi_date_total mizrahi_amount_total
  by (auto simp: MIZRAHI_TFAHOT_FIELD_MAPPINGS_def mizrahi_debit_transform_def
      mizrahi_credit_transform_def) blast+

lemma mizrahi_refill_total: "\<exists>t'. mizrahi_refill numstr col row t = Inr t'"
proof (cases "find (\<lambda>m. source m = col) MIZRAHI_TFAHOT_FIELD_MAPPINGS")
  case None
  then show ?thesis by (simp add: mizrahi_refill_def)
next
  case (Some m)
  then have m: "m \<in> set MIZRAHI_TFAHOT_FIELD_MAPPINGS"
    by (auto simp: find_Some_iff in_set_conv_nth)
  show ?thesis
  proof (cases "transform m")
    case None
    with Some show ?thesis by (simp add: mizrahi_refill_def)
  next
    case (Some f)
    then obtain w where "f (Str (to_string numstr (get_prop row col))) = Inr w"
      using mizrahi_mappings_total m by blast
    with Some \<open>find (\<lambda>m. source m = col) MIZRAHI_TFAHOT_FIELD_MAPPINGS = Some m\<close>
    show ?thesis by (simp add: mizrahi_refill_def)
  qed
qed

lemma mizrahi_transform_row_total: "\<exists>t. mizrahi_transform_row numstr row = Inr t"
proof -
  obtain t where t: "mizrahi_apply numstr (has_value numstr (get_prop row he_credit))
      (has_value numstr (get_prop row he_debit)) MIZRAHI_TFAHOT_FIELD_MAPPINGS row mizrahi_initial = Inr t"
    using mizrahi_apply_total [OF mizrahi_mappings_total] by blast
  show ?thesis
    using t mizrahi_refill_total [of numstr he_credit row t] mizrahi_refill_total [of numstr he_debit row t]
    by (auto simp add: mizrahi_transform_row_def Let_def)
qed

lemma transformTransactions_total: "\<exists>ts. transformTransactions numstr rows = Inr ts"
  using sequence_sum_map_total [of "List.map_filter (\<lambda>r. r) rows" "mizrahi_transform_row numstr"]
    mizrahi_transform_row_total
  by (auto simp: transformTransactions_def)

text \<open>
  C7, amended. When the workbook is read and the vendor's balance search finds nothing,
  the Mizrahi Tfahot analyzer returns successfully and the Discount analyzer returns
  whenever its row transform does; in both the \<open>finalBalance\<close> of the result is the number
  \<open>0\<close>, not \<open>null\<close> or \<open>undefined\<close>.
\<close>

theorem missing_balance_defaults_to_zero:
  "(xlsx_read (Binary b) = Inr wb \<and> findBalanceInWorkbook wb = Null \<longrightarrow>
      (\<exists>ts. analyzeMizrahiTfahotFile numstr xlsx_read extract (Binary b)
               = Inr \<lparr>transactions = ts, finalBalance = Num (Fin 0)\<rparr>))
   \<and> (xlsx_read c = Inr wb \<and> extractBalanceFromSheet (first_sheet wb) = Null
       \<and> transform_rows (sheet_rows (first_sheet wb)) = Inr ts' \<longrightarrow>
      analyzeDiscountFile xlsx_read sheet_rows transform_rows c
        = Inr \<lparr>transactions = ts', finalBalance = Num (Fin 0)\<rparr>)"
proof (intro conjI impI)
  assume h: "xlsx_read (Binary b) = Inr wb \<and> findBalanceInWorkbook wb = Null"
  obtain ts where "transformTransactions numstr (extract wb) = Inr ts"
    using transformTransactions_total by blast
  with h show "\<exists>ts. analyzeMizrahiTfahotFile numstr xlsx_read extract (Binary b)
               = Inr \<lparr>transactions = ts, finalBalance = Num (Fin 0)\<rparr>"
    by (simp add: analyzeMizrahiTfahotFile_def)
next
  assume "xlsx_read c = Inr wb \<and> extractBalanceFromSheet (first_sheet wb) = Null
       \<and> transform_rows (sheet_rows (first_sheet wb)) = Inr ts'"
  then show "analyzeDiscountFile xlsx_read sheet_rows transform_rows c
        = Inr \<lparr>transactions = ts', finalBalance = Num (Fin 0)\<rparr>"
    by (simp add: analyzeDiscountFile_def)
qed

lemma no_balance_in_single_sheet:
  "findBalanceInWorkbook single_sheet_workbook = Null"
  "extractBalanceFromSheet (first_sheet single_sheet_workbook) = Null"
  by (simp_all add: findBalanceInWorkbook_def single_sheet_workbook_def extractBalanceFromSheet_def
      first_sheet_def cell_v_def)

text \<open>
  C7, as stated, fails in the setting of the analyzer's own test: no balance is found
  in the workbook, and the result carries the balance \<open>0\<close>.
\<close>

theorem mizrahi_missing_balance_is_zero:
  "analyzeMizrahiTfahotFile print_nothing read_single_sheet extract_no_rows (Binary [])
     = Inr \<lparr>transactions = [], finalBalance = Num (Fin 0)\<rparr>
   \<and> findBalanceInWorkbook single_sheet_workbook = Null
   \<and> Num (Fin 0) \<noteq> Null \<and> Num (Fin 0) \<noteq> Undefined"
  by (simp add: analyzeMizrahiTfahotFile_def read_single_sheet_def extract_no_rows_def
      transformTransactions_def List.map_filter_def no_balance_in_single_sheet)

theorem missing_balance_defaults_to_zero_witness:
  "(\<exists>ts. analyzeMizrahiTfahotFile print_nothing read_single_sheet extract_no_rows (Binary [])
            = Inr \<lparr>transactions = ts, finalBalance = Num (Fin 0)\<rparr>)
   \<and> analyzeDiscountFile read_single_sheet sheet_no_rows transform_no_rows (Binary [])
        = Inr \<lparr>transactions = [], finalBalance = Num (Fin 0)\<rparr>"
proof -
  have h: "read_single_sheet (Binary []) = Inr single_sheet_workbook
      \<and> findBalanceInWorkbook single_sheet_workbook = Null
      \<and> extractBalanceFromSheet (first_sheet single_sheet_workbook) = Null
      \<and> transform_no_rows (sheet_no_rows (first_sheet single_sheet_workbook)) = Inr []"
    by (simp add: read_single_sheet_def no_balance_in_single_sheet transform_no_rows_def)
  show ?thesis
    using missing_balance_defaults_to_zero [of read_single_sheet "[]" single_sheet_workbook
        print_nothing extract_no_rows "Binary []" transform_no_rows sheet_no_rows "[]"] h
    by simp
qed


subsection \<open>Detectors\<close>

lemma first_cell_of_row_in_range:
  "r < length sheetJson \<Longrightarrow> first_cell_of_row sheetJson r = Inr (cell (sheetJson ! r) 0)"
  by (simp add: first_cell_of_row_def nth_opt_def)

text \<open>
  C10, amended. A detector whose file-name test fails returns \<open>null\<close> (\<open>false\<close> for
  Max) without looking at the sheet. On a sheet with more rows than the row index it
  inspects (4 for Cal, 5 for Isracard, 3 for Max) a detector does not throw: Cal and
  Isracard return \<open>null\<close> or the content of the identifier cell, whatever it holds, and
  Max returns a boolean.
\<close>

theorem detectors_on_sheets_with_enough_rows:
  "(\<not> startsWith fname he_cal_prefix \<longrightarrow> isCalFile fname sheetJson = Inr Null)
   \<and> (4 < length sheetJson \<longrightarrow>
        isCalFile fname sheetJson = Inr Null
        \<or> isCalFile fname sheetJson = Inr (cell (sheetJson ! 0) 0))
   \<and> (\<not> startsWith fname (js ''Export_'') \<longrightarrow> isIsracardFile fname sheetJson = Inr Null)
   \<and> (5 < length sheetJson \<longrightarrow>
        isIsracardFile fname sheetJson = Inr Null
        \<or> isIsracardFile fname sheetJson = Inr (cell (sheetJson ! 3) 0))
   \<and> (\<not> includes_str (lower fname) (js ''transaction-details_export_'') \<longrightarrow>
        isMaxFile lower fname sheetJson = Inr (Bool False))
   \<and> (3 < length sheetJson \<longrightarrow> (\<exists>b. isMaxFile lower fname sheetJson = Inr (Bool b)))"
proof (intro conjI impI)
  assume "\<not> startsWith fname he_cal_prefix"
  then show "isCalFile fname sheetJson = Inr Null" by (simp add: isCalFile_def)
next
  assume len: "4 < length sheetJson"
  then have "first_cell_of_row sheetJson 0 = Inr (cell (sheetJson ! 0) 0)"
    by (intro first_cell_of_row_in_range) auto
  with len show "isCalFile fname sheetJson = Inr Null
        \<or> isCalFile fname sheetJson = Inr (cell (sheetJson ! 0) 0)"
    by (auto simp add: isCalFile_def nth_opt_def Let_def)
next
  assume "\<not> startsWith fname (js ''Export_'')"
  then show "isIsracardFile fname sheetJson = Inr Null" by (simp add: isIsracardFile_def)
next
  assume len: "5 < length sheetJson"
  then have "first_cell_of_row sheetJson 3 = Inr (cell (sheetJson ! 3) 0)"
    by (intro first_cell_of_row_in_range) auto
  with len show "isIsracardFile fname sheetJson = Inr Null
        \<or> isIsracardFile fname sheetJson = Inr (cell (sheetJson ! 3) 0)"
    by (auto simp add: isIsracardFile_def nth_opt_def Let_def)
next
  assume "\<not> includes_str (lower fname) (js ''transaction-details_export_'')"
  then show "isMaxFile lower fname sheetJson = Inr (Bool False)"
    by (simp add: isMaxFile_def)
next
  assume "3 < length sheetJson"
  then show "\<exists>b. isMaxFile lower fname sheetJson = Inr (Bool b)"
    by (auto simp add: isMaxFile_def nth_opt_def)
qed

lemmas detector_eval =
  isCalFile_def nth_opt_def startsWith_def he_cal_prefix_def cal_file_name_def js_def
  one_row_sheet_def cal_test_sheet_def first_cell_of_row_def cell_def normalizeHeaderString_def
  trim_def is_ws_def he_txn_date_def he_merchant_def Let_def

text \<open>
  C10, as stated, fails: on a file with the Cal name and a sheet of one row,
  \<open>sheetJson[4]\<close> is \<open>undefined\<close> and \<open>firstRow.some\<close> throws.
\<close>

theorem isCalFile_throws_on_short_sheet:
  "isCalFile cal_file_name one_row_sheet = Inl type_error_some"
  by (simp add: detector_eval)

theorem detectors_on_sheets_with_enough_rows_witness:
  "isCalFile (js ''bank.xlsx'') one_row_sheet = Inr Null
   \<and> isCalFile cal_file_name cal_test_sheet = Inr (Str (js ''1234-5678''))
   \<and> isIsracardFile (js ''bank.xlsx'') one_row_sheet = Inr Null
   \<and> (isIsracardFile (js ''bank.xlsx'') (cal_test_sheet @ [[]]) = Inr Null
       \<or> isIsracardFile (js ''bank.xlsx'') (cal_test_sheet @ [[]]) = Inr Undefined)
   \<and> isMaxFile ascii_lower (js ''bank.xlsx'') one_row_sheet = Inr (Bool False)
   \<and> (\<exists>b. isMaxFile ascii_lower (js ''bank.xlsx'') cal_test_sheet = Inr (Bool b))"
proof -
  have h1: "\<not> startsWith (js ''bank.xlsx'') he_cal_prefix"
    by (simp add: startsWith_def he_cal_prefix_def js_def)
  have h2: "4 < length cal_test_sheet" "3 < length cal_test_sheet"
    "5 < length (cal_test_sheet @ [[]])"
    by (simp_all add: cal_test_sheet_def)
  have h3: "\<not> startsWith (js ''bank.xlsx'') (js ''Export_'')"
    by (simp add: startsWith_def js_def)
  have h4: "cell ((cal_test_sheet @ [[]]) ! 3) 0 = Undefined"
    "cell (cal_test_sheet ! 0) 0 = Str (js ''1234-5678'')"
    by (simp_all add: cal_test_sheet_def cell_def nth_opt_def)
  have h5: "\<not> includes_str (ascii_lower (js ''bank.xlsx'')) (js ''transaction-details_export_'')"
    by (simp add: startsWith_def js_def ascii_lower_def)
  have c: "isCalFile cal_file_name cal_test_sheet \<noteq> Inr Null"
    by (simp add: detector_eval)
  note t1 = detectors_on_sheets_with_enough_rows [of "js ''bank.xlsx''" one_row_sheet ascii_lower]
  note t2 = detectors_on_sheets_with_enough_rows [of cal_file_name cal_test_sheet ascii_lower]
  note t3 = detectors_on_sheets_with_enough_rows
    [of "js ''bank.xlsx''" "cal_test_sheet @ [[]]" ascii_lower]
  note t4 = detectors_on_sheets_with_enough_rows [of "js ''bank.xlsx''" cal_test_sheet ascii_lower]
  have a1: "isCalFile (js ''bank.xlsx'') one_row_sheet = Inr Null" using t1 h1 by blast
  have a2: "isCalFile cal_file_name cal_test_sheet = Inr (Str (js ''1234-5678''))"
    using t2 h2(1) c h4(2) by metis
  have a3: "isIsracardFile (js ''bank.xlsx'') one_row_sheet = Inr Null" using t1 h3 by blast
  have a4: "isIsracardFile (js ''bank.xlsx'') (cal_test_sheet @ [[]]) = Inr Null
       \<or> isIsracardFile (js ''bank.xlsx'') (cal_test_sheet @ [[]]) = Inr Undefined"
    using t3 h2(3) h4(1) by metis
  have a5: "isMaxFile ascii_lower (js ''bank.xlsx'') one_row_sheet = Inr (Bool False)"
    using t1 h5 by blast
  have a6: "\<exists>b. isMaxFile ascii_lower (js ''bank.xlsx'') cal_test_sheet = Inr (Bool b)"
    using t4 h2(2) by blast
  from a1 a2 a3 a4 a5 a6 show ?thesis by blast
qed

subsection \<open>Batches of files\<close>

lemma analyzeFile_fulfils: "\<exists>r. analyzeFile env file = Inr r"
  by (cases "analyzeFile_try env file") (simp_all add: analyzeFile_def)

lemma analyzeFile_envelope:
  "analyzeFile_try env file = Inl e \<Longrightarrow> analyzeFile env file = Inr (error_envelope (file_name file) e)"
  by (simp add: analyzeFile_def)

text \<open>
  \<open>analyzeFiles\<close> always fulfils, with exactly one result for each file and in the
  order of the files; the result of a file is the one \<open>analyzeFile\<close> gives it, and
  the one it gets in a batch of its own; and when an exception reaches the \<open>catch\<close>
  block of \<open>analyzeFile\<close>, the result is the envelope with the file name, the
  message, \<open>vendorInfo: null\<close> and \<open>identifier: null\<close>.
\<close>

theorem batch_analysis_is_per_file:
  "\<exists>rs. analyzeFiles env files = Inr rs \<and> length rs = length files
     \<and> (\<forall>i<length files.
           analyzeFile env (files ! i) = Inr (rs ! i)
           \<and> analyzeFiles env [files ! i] = Inr [rs ! i]
           \<and> (\<forall>e. analyzeFile_try env (files ! i) = Inl e \<longrightarrow>
                 rs ! i = \<lparr>fileName = file_name (files ! i), vendorInfo = IsNull,
                           error = Some (error_message e), data = Absent,
                           topFinalBalance = Undefined, fileIdentifier = Null\<rparr>))"
proof -
  have "\<forall>f\<in>set files. \<exists>r. analyzeFile env f = Inr r"
    using analyzeFile_fulfils by blast
  from sequence_sum_map_total [OF this]
  obtain rs where rs: "sequence_sum (map (analyzeFile env) files) = Inr rs"
    "length rs = length files" "\<forall>i<length files. analyzeFile env (files ! i) = Inr (rs ! i)"
    by blast
  have "analyzeFiles env [files ! i] = Inr [rs ! i]" if "i < length files" for i
    using rs(3) that by (simp add: analyzeFiles_def)
  moreover have "rs ! i = \<lparr>fileName = file_name (files ! i), vendorInfo = IsNull,
                           error = Some (error_message e), data = Absent,
                           topFinalBalance = Undefined, fileIdentifier = Null\<rparr>"
    if "i < length files" "analyzeFile_try env (files ! i) = Inl e" for i e
    using rs(3) that analyzeFile_envelope [of env "files ! i" e]
    by (simp add: error_envelope_def)
  ultimately show ?thesis using rs unfolding analyzeFiles_def by blast
qed

lemmas pipeline_eval =
  analyzeFile_try_def analyzeExcelContent_def example_pipeline_def corrupt_file_def
  unknown_csv_file_def endsWith_def ascii_lower_def js_def read_fails_def analysis_of_def

text \<open>
  A batch of a file that the spreadsheet reader rejects and a CSV file: two results, the
  first the envelope of the reader's message, the second untouched by the first.
\<close>

theorem batch_analysis_is_per_file_witness:
  "\<exists>rs. analyzeFiles example_pipeline [corrupt_file, unknown_csv_file] = Inr rs \<and> length rs = 2
     \<and> rs ! 0 = \<lparr>fileName = js ''notes.xlsx'', vendorInfo = IsNull,
                  error = Some (js ''File is not a spreadsheet''), data = Absent,
                  topFinalBalance = Undefined, fileIdentifier = Null\<rparr>
     \<and> analyzeFiles example_pipeline [unknown_csv_file] = Inr [rs ! 1]"
proof -
  from batch_analysis_is_per_file [of example_pipeline "[corrupt_file, unknown_csv_file]"]
  obtain rs where rs: "analyzeFiles example_pipeline [corrupt_file, unknown_csv_file] = Inr rs"
    "length rs = length [corrupt_file, unknown_csv_file]"
    "\<forall>i<length [corrupt_file, unknown_csv_file].
        analyzeFile example_pipeline ([corrupt_file, unknown_csv_file] ! i) = Inr (rs ! i)
        \<and> analyzeFiles example_pipeline [[corrupt_file, unknown_csv_file] ! i] = Inr [rs ! i]
        \<and> (\<forall>e. analyzeFile_try example_pipeline ([corrupt_file, unknown_csv_file] ! i) = Inl e \<longrightarrow>
              rs ! i = \<lparr>fileName = file_name ([corrupt_file, unknown_csv_file] ! i),
                        vendorInfo = IsNull, error = Some (error_message e), data = Absent,
                        topFinalBalance = Undefined, fileIdentifier = Null\<rparr>)"
    by blast
  have t: "analyzeFile_try example_pipeline corrupt_file = Inl (Error (js ''File is not a spreadsheet''))"
    by (simp add: pipeline_eval)
  have n: "file_name corrupt_file = js ''notes.xlsx''"
    "error_message (Error (js ''File is not a spreadsheet'')) = js ''File is not a spreadsheet''"
    by (simp_all add: corrupt_file_def error_message_def)
  from rs(3) have r0: "\<forall>e. analyzeFile_try example_pipeline corrupt_file = Inl e \<longrightarrow>
              rs ! 0 = \<lparr>fileName = file_name corrupt_file,
                        vendorInfo = IsNull, error = Some (error_message e), data = Absent,
                        topFinalBalance = Undefined, fileIdentifier = Null\<rparr>"
    by force
  from rs(3) have r1: "analyzeFiles example_pipeline [unknown_csv_file] = Inr [rs ! 1]"
    by force
  from r0 t n have "rs ! 0 = \<lparr>fileName = js ''notes.xlsx'', vendorInfo = IsNull,
                  error = Some (js ''File is not a spreadsheet''), data = Absent,
                  topFinalBalance = Undefined, fileIdentifier = Null\<rparr>"
    by simp
  with rs(1,2) r1 show ?thesis by simp
qed

text \<open>
  An exception of the CSV dispatch does not reach the \<open>catch\<close> block: the promise
  of \<open>analyzeCSVContent\<close> is not awaited, so a readable CSV file gets a result
  without \<open>error\<close>, whatever the dispatch does.
\<close>

lemma analyzeFile_csv_not_awaited:
  assumes "endsWith (file_name file) (js ''.csv'')" and "file_text file = Inr content"
  shows "analyzeFile env file
    = Inr \<lparr>fileName = file_name file, vendorInfo = Absent, error = None, data = IsNull,
           topFinalBalance = Undefined, fileIdentifier = Undefined\<rparr>"
  using assms by (simp add: analyzeFile_def analyzeFile_try_def analysis_of_def)

lemmas csv_eval =
  analyzeCSVContent_def csv_results_def example_pipeline_def parse_no_rows_def
  parse_no_lines_def some_vendor_def never_matches_def Let_def

text \<open>
  C1. The analysis of the CSV file \<open>list.csv\<close> with the text \<open>a,b\<close> raises an
  exception: no registered analyzer recognises it and \<open>analyzeCSVContent\<close> rejects
  with ``Unknown file format''. \<open>analyzeFile\<close> does not turn that exception into the
  error envelope: its result for the file has no \<open>error\<close>, and \<open>vendorInfo\<close> and
  \<open>identifier\<close> are \<open>undefined\<close> where the envelope has \<open>null\<close>.
\<close>

theorem csv_rejection_is_not_caught:
  "analyzeCSVContent example_pipeline (js ''a,b'') (js ''list.csv'') = Inl unknown_file_format
   \<and> analyzeFile example_pipeline unknown_csv_file
       = Inr \<lparr>fileName = js ''list.csv'', vendorInfo = Absent, error = None, data = IsNull,
              topFinalBalance = Undefined, fileIdentifier = Undefined\<rparr>
   \<and> analyzeFile example_pipeline unknown_csv_file
       \<noteq> Inr (error_envelope (js ''list.csv'') unknown_file_format)"
  by (simp add: csv_eval pipeline_eval analyzeFile_def error_envelope_def)


subsection \<open>Files of no known vendor\<close>

lemma dispatch_registered_no_match:
  assumes "\<forall>a\<in>set analyzers. \<exists>detect v. isVendorFile a = Some detect
             \<and> detect name (RowsInput results) = Inr v \<and> \<not> truthy v"
  shows "dispatch_registered analyzers content name results = Inl unknown_file_format"
  using assms by (induction analyzers) auto

lemma ask_vendors_no_match:
  assumes "\<forall>a\<in>set vendors. isVendorFile a = None
             \<or> (\<exists>detect v. isVendorFile a = Some detect \<and> detect name inp = Inr v \<and> \<not> truthy v)"
  shows "ask_vendors vendors name inp = Inr None"
  using assms by (induction vendors) auto

text \<open>
  C8, amended. When no detector matches the rows of a CSV file, the dispatcher of
  \<open>analyzers/fileAnalyzer.ts\<close> rejects with the error ``Unknown file format'', and the
  dispatcher of \<open>utils/fileAnalyzer.ts\<close> (Poalim's detector, then the scan of the common
  columns) returns \<open>{vendorInfo: null, identifier: null}\<close>.
\<close>

theorem csv_without_matching_vendor:
  fixes env :: "'b pipeline"
  shows "(csv_results env content = Inr results
      \<and> (\<forall>a\<in>set (REGISTERED_ANALYZERS env). \<exists>detect v. isVendorFile a = Some detect
             \<and> detect name (RowsInput results) = Inr v \<and> \<not> truthy v) \<longrightarrow>
      analyzeCSVContent env content name = Inl unknown_file_format)
   \<and> (Papa_parse_default env content = Inr result
      \<and> (\<exists>detect v. isVendorFile (getPoalimVendorInfo env) = Some detect
             \<and> detect name (FieldsInput (case meta_fields result of None \<Rightarrow> [] | Some fs \<Rightarrow> fs)) = Inr v
             \<and> \<not> truthy v)
      \<and> scan_common_columns (toUpperCase env) (parsed result)
          = (None :: ('b VendorInfo \<times> jsstring) option) \<longrightarrow>
      analyzeCSVContent_utils env content name = Inr (IsNull, Null))"
proof (intro conjI impI)
  assume "csv_results env content = Inr results
      \<and> (\<forall>a\<in>set (REGISTERED_ANALYZERS env). \<exists>detect v. isVendorFile a = Some detect
             \<and> detect name (RowsInput results) = Inr v \<and> \<not> truthy v)"
  then show "analyzeCSVContent env content name = Inl unknown_file_format"
    by (simp add: analyzeCSVContent_def dispatch_registered_no_match)
next
  assume h: "Papa_parse_default env content = Inr result
      \<and> (\<exists>detect v. isVendorFile (getPoalimVendorInfo env) = Some detect
             \<and> detect name (FieldsInput (case meta_fields result of None \<Rightarrow> [] | Some fs \<Rightarrow> fs)) = Inr v
             \<and> \<not> truthy v)
      \<and> scan_common_columns (toUpperCase env) (parsed result)
          = (None :: ('b VendorInfo \<times> jsstring) option)"
  then have a: "ask_vendors [getPoalimVendorInfo env] name
      (FieldsInput (case meta_fields result of None \<Rightarrow> [] | Some fs \<Rightarrow> fs)) = Inr None"
    by (intro ask_vendors_no_match) auto
  from h have p: "Papa_parse_default env content = Inr result"
    and sc: "scan_common_columns (toUpperCase env) (parsed result)
          = (None :: ('b VendorInfo \<times> jsstring) option)" by blast+
  show "analyzeCSVContent_utils env content name = Inr (IsNull, Null)"
    by (simp add: analyzeCSVContent_utils_def p a sc del: ask_vendors.simps)
qed

text \<open>
  C8, as stated, fails: with one registered vendor whose detector answers \<open>null\<close>,
  \<open>analyzeCSVContent\<close> throws instead of returning a pair of nulls.
\<close>

theorem unknown_csv_is_rejected:
  "analyzeCSVContent example_pipeline (js ''a,b'') (js ''list.csv'') = Inl unknown_file_format"
  by (simp add: csv_eval)

theorem csv_without_matching_vendor_witness:
  "analyzeCSVContent example_pipeline (js ''a,b'') (js ''list.csv'') = Inl unknown_file_format
   \<and> analyzeCSVContent_utils example_pipeline (js ''a,b'') (js ''list.csv'') = Inr (IsNull, Null)"
proof -
  have h1: "csv_results example_pipeline (js ''a,b'') = Inr []
      \<and> (\<forall>a\<in>set (REGISTERED_ANALYZERS example_pipeline). \<exists>detect v. isVendorFile a = Some detect
             \<and> detect (js ''list.csv'') (RowsInput []) = Inr v \<and> \<not> truthy v)"
    by (simp add: csv_eval)
  have h2: "Papa_parse_default example_pipeline (js ''a,b'')
        = Inr \<lparr>parse_errors = [], meta_fields = Some [], parsed = []\<rparr>
      \<and> (\<exists>detect v. isVendorFile (getPoalimVendorInfo example_pipeline) = Some detect
             \<and> detect (js ''list.csv'') (FieldsInput []) = Inr v \<and> \<not> truthy v)
      \<and> scan_common_columns (toUpperCase example_pipeline) []
          = (None :: (nat list VendorInfo \<times> jsstring) option)"
    by (simp add: example_pipeline_def parse_empty_def some_vendor_def never_matches_def
        scan_common_columns_def List.map_filter_def)
  note t = csv_without_matching_vendor [of example_pipeline "js ''a,b''" "[]" "js ''list.csv''"
        "\<lparr>parse_errors = [], meta_fields = Some [], parsed = []\<rparr>"]
  have a1: "analyzeCSVContent example_pipeline (js ''a,b'') (js ''list.csv'') = Inl unknown_file_format"
    using t h1 by blast
  have a2: "analyzeCSVContent_utils example_pipeline (js ''a,b'') (js ''list.csv'') = Inr (IsNull, Null)"
    using t h2 by simp
  from a1 a2 show ?thesis by blast
qed

subsection \<open>The amount in a line of text\<close>

lemma grouped_alternative_None: "grouped_alternative s = None \<longleftrightarrow> takeWhile is_digit s = []"
  by (auto simp: grouped_alternative_def Let_def)

text \<open>
  The second and third alternatives are never used: each of them needs a digit at the
  position, and there the first alternative matches already.
\<close>

lemma plain_alternative_dead: "grouped_alternative s = None \<Longrightarrow> plain_alternative sep s = None"
  by (simp add: grouped_alternative_None plain_alternative_def)

lemma match_at_grouped: "match_at s = grouped_alternative s"
  by (cases "grouped_alternative s") (simp_all add: match_at_def plain_alternative_dead)

lemma takeWhile_empty_iff: "takeWhile P s = [] \<longleftrightarrow> (s = [] \<or> \<not> P (hd s))"
  by (cases s) auto

lemma match_at_None: "match_at s = None \<longleftrightarrow> (s = [] \<or> \<not> is_digit (hd s))"
  by (simp add: match_at_grouped grouped_alternative_None takeWhile_empty_iff)

lemma all_matches_empty:
  "all_matches k t = [] \<longleftrightarrow> (\<forall>c\<in>set (drop k t). \<not> is_digit c)"
proof (induction k t rule: all_matches.induct)
  case (1 skip)
  then show ?case by simp
next
  case (2 skip c cs)
  show ?case
  proof (cases "0 < skip")
    case True
    then obtain k' where k': "skip = Suc k'" by (cases skip) auto
    with 2 True show ?thesis by simp
  next
    case False
    then have s0: "skip = 0" by simp
    show ?thesis
    proof (cases "match_at (c # cs)")
      case None
      then have "\<not> is_digit c" by (simp add: match_at_None)
      with 2 None s0 show ?thesis by simp
    next
      case (Some m)
      then have "is_digit c" using match_at_None [of "c # cs"] by auto
      with Some s0 show ?thesis by auto
    qed
  qed
qed

lemma comma_groups_prefix_ok: "comma_groups (comma_groups_prefix s)"
  by (induction s rule: comma_groups_prefix.induct) auto

lemma comma_groups_prefix_is_prefix: "take (length (comma_groups_prefix s)) s = comma_groups_prefix s"
  by (induction s rule: comma_groups_prefix.induct) auto

lemma fraction_prefix_ok: "is_fraction (fraction_prefix s)"
  by (cases s) (auto simp: fraction_prefix_def is_fraction_def one_or_two_digits_def list_all_iff
      dest: in_set_takeD set_takeWhileD)

lemma grouped_amount_intro:
  assumes "a \<noteq> []" "length a \<le> 3" "list_all is_digit a" "comma_groups g" "is_fraction f"
  shows "grouped_amount (a @ g @ f)"
proof -
  have "0 < length a" using assms(1) by simp
  then have "length a = 1 \<or> length a = 2 \<or> length a = 3" using assms(2) by arith
  then have i: "length a \<in> set [1, 2, 3]" by auto
  have j: "length a + length g \<in> set [0..<Suc (length (a @ g @ f))]" by simp
  have "length a \<le> length a + length g \<and> length a + length g \<le> length (a @ g @ f)
      \<and> list_all is_digit (take (length a) (a @ g @ f))
      \<and> comma_groups (take (length a + length g - length a) (drop (length a) (a @ g @ f)))
      \<and> is_fraction (drop (length a + length g) (a @ g @ f))"
    using assms by simp
  with i j show ?thesis unfolding grouped_amount_def list_ex_iff by blast
qed

lemma grouped_alternative_grouped:
  assumes "grouped_alternative s = Some m"
  shows "grouped_amount m"
proof -
  let ?a = "take 3 (takeWhile is_digit s)"
  let ?g = "comma_groups_prefix (drop (length ?a) s)"
  let ?f = "fraction_prefix (drop (length ?a + length ?g) s)"
  from assms have a: "?a \<noteq> []" and m: "m = ?a @ ?g @ ?f"
    by (auto simp: grouped_alternative_def Let_def split: if_splits)
  have d: "list_all is_digit ?a"
    by (auto simp: list_all_iff dest: in_set_takeD set_takeWhileD)
  show ?thesis
    unfolding m using a d comma_groups_prefix_ok fraction_prefix_ok
    by (intro grouped_amount_intro) auto
qed

lemma all_matches_grouped: "\<forall>m\<in>set (all_matches k t). grouped_amount m"
proof (induction k t rule: all_matches.induct)
  case (1 skip)
  then show ?case by simp
next
  case (2 skip c cs)
  then show ?case
    by (auto simp: match_at_grouped grouped_alternative_grouped split: option.splits)
qed

lemma longest_fold:
  fixes ms :: "jsstring list"
  defines "step \<equiv> (\<lambda>longest m :: jsstring. if length longest < length m then m else longest)"
  shows "(foldl step acc ms = acc \<and> (\<forall>x\<in>set ms. length x \<le> length acc))
       \<or> (\<exists>pre post. ms = pre @ foldl step acc ms # post
             \<and> length acc < length (foldl step acc ms)
             \<and> (\<forall>x\<in>set pre. length x < length (foldl step acc ms))
             \<and> (\<forall>x\<in>set post. length x \<le> length (foldl step acc ms)))"
proof (induction ms arbitrary: acc)
  case Nil
  then show ?case by simp
next
  case (Cons m ms)
  show ?case
  proof (cases "length acc < length m")
    case True
    then have s: "foldl step acc (m # ms) = foldl step m ms" by (simp add: step_def)
    from Cons [of m] show ?thesis
    proof
      assume h: "foldl step m ms = m \<and> (\<forall>x\<in>set ms. length x \<le> length m)"
      then have "m # ms = [] @ foldl step acc (m # ms) # ms" using s by simp
      with h s True show ?thesis by (metis empty_iff list.set(1))
    next
      assume "\<exists>pre post. ms = pre @ foldl step m ms # post
             \<and> length m < length (foldl step m ms)
             \<and> (\<forall>x\<in>set pre. length x < length (foldl step m ms))
             \<and> (\<forall>x\<in>set post. length x \<le> length (foldl step m ms))"
      then obtain pre post where p: "ms = pre @ foldl step m ms # post"
        "length m < length (foldl step m ms)"
        "\<forall>x\<in>set pre. length x < length (foldl step m ms)"
        "\<forall>x\<in>set post. length x \<le> length (foldl step m ms)" by blast
      have "m # ms = (m # pre) @ foldl step acc (m # ms) # post" using p(1) s by simp
      moreover have "\<forall>x\<in>set (m # pre). length x < length (foldl step acc (m # ms))"
        using p(2,3) s by simp
      moreover have "length acc < length (foldl step acc (m # ms))" using True p(2) s by simp
      ultimately show ?thesis using p(4) s by metis
    qed
  next
    case False
    then have s: "foldl step acc (m # ms) = foldl step acc ms" by (simp add: step_def)
    from Cons [of acc] show ?thesis
    proof
      assume "foldl step acc ms = acc \<and> (\<forall>x\<in>set ms. length x \<le> length acc)"
      with s False show ?thesis by auto
    next
      assume "\<exists>pre post. ms = pre @ foldl step acc ms # post
             \<and> length acc < length (foldl step acc ms)
             \<and> (\<forall>x\<in>set pre. length x < length (foldl step acc ms))
             \<and> (\<forall>x\<in>set post. length x \<le> length (foldl step acc ms))"
      then obtain pre post where p: "ms = pre @ foldl step acc ms # post"
        "length acc < length (foldl step acc ms)"
        "\<forall>x\<in>set pre. length x < length (foldl step acc ms)"
        "\<forall>x\<in>set post. length x \<le> length (foldl step acc ms)" by blast
      have "m # ms = (m # pre) @ foldl step acc (m # ms) # post" using p(1) s by simp
      moreover have "\<forall>x\<in>set (m # pre). length x < length (foldl step acc (m # ms))"
        using p(2,3) s False by simp
      moreover have "length acc < length (foldl step acc (m # ms))" using p(2) s by simp
      ultimately show ?thesis using p(4) s by metis
    qed
  qed
qed

lemma grouped_amount_nonempty: "grouped_amount m \<Longrightarrow> m \<noteq> []"
  by (auto simp: grouped_amount_def list_ex_iff list_all_iff)

lemma longest_match_first:
  assumes "ms \<noteq> []" and "\<forall>m\<in>set ms. m \<noteq> []"
  shows "\<exists>pre post. ms = pre @ longest_match ms # post
           \<and> (\<forall>x\<in>set pre. length x < length (longest_match ms))
           \<and> (\<forall>x\<in>set post. length x \<le> length (longest_match ms))"
proof -
  from longest_fold [of "[]" ms]
  have "(longest_match ms = [] \<and> (\<forall>x\<in>set ms. length x \<le> length ([] :: jsstring)))
       \<or> (\<exists>pre post. ms = pre @ longest_match ms # post
             \<and> length ([] :: jsstring) < length (longest_match ms)
             \<and> (\<forall>x\<in>set pre. length x < length (longest_match ms))
             \<and> (\<forall>x\<in>set post. length x \<le> length (longest_match ms)))"
    unfolding longest_match_def .
  moreover have "\<not> (\<forall>x\<in>set ms. length x \<le> length ([] :: jsstring))"
    using assms by (cases ms) auto
  ultimately show ?thesis by blast
qed

lemma grouped_amount_elim:
  assumes "grouped_amount m"
  obtains a g f where "m = a @ g @ f" "a \<noteq> []" "list_all is_digit a" "comma_groups g" "is_fraction f"
proof -
  from assms obtain i j where ij: "i \<in> set [1, 2, 3]" "i \<le> j" "j \<le> length m"
    "list_all is_digit (take i m)" "comma_groups (take (j - i) (drop i m))" "is_fraction (drop j m)"
    unfolding grouped_amount_def list_ex_iff by blast
  have e: "drop j m = drop (j - i) (drop i m)" using ij(2) by simp
  have "take (j - i) (drop i m) @ drop j m = drop i m"
    by (subst e) (rule append_take_drop_id)
  then have "m = take i m @ take (j - i) (drop i m) @ drop j m" by simp
  moreover have "take i m \<noteq> []" using ij(1,2,3) by auto
  ultimately show ?thesis using ij(4,5,6) that by blast
qed

lemma comma_groups_filter:
  "comma_groups g \<Longrightarrow> filter (\<lambda>c. c \<noteq> 44) g = filter is_digit g \<and> 46 \<notin> set g"
  by (induction g rule: comma_groups.induct) (auto simp: is_digit_def)

lemma digits_no_comma: "list_all is_digit a \<Longrightarrow> filter (\<lambda>c. c \<noteq> 44) a = a \<and> filter is_digit a = a \<and> 46 \<notin> set a"
  by (induction a) (auto simp: is_digit_def)

lemma str_decimal_literal_digits:
  assumes "ip \<noteq> []" "\<forall>x\<in>set ip. is_digit x" "\<forall>x\<in>set ds. is_digit x"
    and "f = [] \<and> ds = [] \<or> f = 46 # ds"
  shows "str_decimal_literal (ip @ f)
           = Some (double (of_nat (digits_val 10 (ip @ ds)) / 10 ^ length ds), [])"
proof -
  let ?s = "ip @ f"
  obtain c cs where ip: "ip = c # cs" using assms(1) by (cases ip) auto
  have c: "is_digit c" using assms(2) ip by simp
  have sign: "c \<noteq> 45" "c \<noteq> 43" "c \<noteq> 73" using c by (auto simp: is_digit_def)
  have hd: "?s \<noteq> []" "hd ?s = c" using ip by simp_all
  have u: "(if ?s \<noteq> [] \<and> (hd ?s = 43 \<or> hd ?s = 45) then tl ?s else ?s) = ?s"
    using hd sign by simp
  have neg: "(?s \<noteq> [] \<and> hd ?s = 45) = False" using hd sign by simp
  have inf: "startsWith ?s (js ''Infinity'') = False"
    using sign(3) ip by (auto simp: startsWith_def js_def)
  have nd: "\<not> is_digit 46" by (simp add: is_digit_def)
  have f0: "takeWhile is_digit f = []" "dropWhile is_digit f = f"
    using assms(4) nd by auto
  have tw: "takeWhile is_digit ?s = ip" using assms(2) f0 by (simp add: takeWhile_append2)
  have dw: "dropWhile is_digit ?s = f" using assms(2) f0 by (simp add: dropWhile_append2)
  have twds: "takeWhile is_digit ds = ds" "dropWhile is_digit ds = []"
    using assms(3) by (simp_all add: takeWhile_eq_all_conv)
  have re: "read_exponent [] = (0, [])" by (simp add: read_exponent_def)
  have sc: "\<And>x. scale10 x 0 = x" by (simp add: scale10_def)
  from assms(4) show ?thesis
  proof
    assume "f = [] \<and> ds = []"
    then show ?thesis
      unfolding str_decimal_literal_def Let_def u neg inf tw dw if_False
      using assms(1) by (simp add: re sc)
  next
    assume "f = 46 # ds"
    then show ?thesis
      unfolding str_decimal_literal_def Let_def u neg inf tw dw if_False
      using assms(1) by (simp add: re sc twds)
  qed
qed

lemma parseFloat_decimal:
  assumes "ip \<noteq> []" "list_all is_digit ip" "list_all is_digit ds"
  shows "parseFloat (ip @ (if ds = [] then [] else 46 # ds))
           = double (of_nat (digits_val 10 (ip @ ds)) / 10 ^ length ds)"
proof -
  let ?f = "if ds = [] then [] else 46 # ds"
  obtain c cs where ip: "ip = c # cs" using assms(1) by (cases ip) auto
  have c: "is_digit c" using assms(2) ip by simp
  have ws: "dropWhile is_ws (ip @ ?f) = ip @ ?f" using c ip by (simp add: digit_not_ws)
  have f: "?f = [] \<and> ds = [] \<or> ?f = 46 # ds" by simp
  have "str_decimal_literal (ip @ ?f)
           = Some (double (of_nat (digits_val 10 (ip @ ds)) / 10 ^ length ds), [])"
    using assms(1) assms(2,3) [unfolded list_all_iff] f by (rule str_decimal_literal_digits)
  then show ?thesis unfolding parseFloat_def ws by simp
qed

lemma is_fraction_cases:
  assumes "is_fraction f"
  obtains ds where "list_all is_digit ds" "f = (if ds = [] then [] else 46 # ds)"
proof (cases f)
  case Nil
  then show ?thesis using that [of "[]"] by simp
next
  case (Cons c ds)
  with assms have "c = 46" "ds \<noteq> []" "list_all is_digit ds" by (auto simp: is_fraction_def)
  with Cons show ?thesis using that [of ds] by simp
qed

lemma grouped_amount_value:
  assumes "grouped_amount m"
  shows "parseFloat (filter (\<lambda>c. c \<noteq> 44) m) = double (amount_value m)"
proof -
  from assms obtain a g f where m: "m = a @ g @ f" and a: "a \<noteq> []" "list_all is_digit a"
    and g: "comma_groups g" and f: "is_fraction f"
    by (rule grouped_amount_elim)
  from f obtain ds where ds: "list_all is_digit ds" "f = (if ds = [] then [] else 46 # ds)"
    by (rule is_fraction_cases)
  let ?ip = "a @ filter is_digit g"
  have fa: "filter (\<lambda>c. c \<noteq> 44) a = a" "filter is_digit a = a" "46 \<notin> set a"
    using digits_no_comma [OF a(2)] by simp_all
  have fg: "filter (\<lambda>c. c \<noteq> 44) g = filter is_digit g" "46 \<notin> set g"
    using comma_groups_filter [OF g] by simp_all
  have fds: "filter (\<lambda>c. c \<noteq> 44) ds = ds" "filter is_digit ds = ds"
    using digits_no_comma [OF ds(1)] by simp_all
  have ff: "filter (\<lambda>c. c \<noteq> 44) f = f" "filter is_digit f = ds"
    using ds(2) fds by (auto simp: is_digit_def)
  have stripped: "filter (\<lambda>c. c \<noteq> 44) m = ?ip @ (if ds = [] then [] else 46 # ds)"
    using m fa fg ff ds(2) by simp
  have ip: "?ip \<noteq> []" "list_all is_digit ?ip" using a by (auto simp add: list_all_iff)
  have digs: "filter is_digit m = ?ip @ ds" using m fa ff by simp
  have "\<forall>x\<in>set (a @ g). x \<noteq> 46" using fa(3) fg(2) by auto
  then have "dropWhile (\<lambda>c. c \<noteq> 46) ((a @ g) @ f) = dropWhile (\<lambda>c. c \<noteq> 46) f"
    by (intro dropWhile_append2) blast
  then have "dropWhile (\<lambda>c. c \<noteq> 46) m = dropWhile (\<lambda>c. c \<noteq> 46) f"
    unfolding m by simp
  also have "\<dots> = f" using ds(2) by simp
  finally have dw: "dropWhile (\<lambda>c. c \<noteq> 46) m = f" .
  show ?thesis
    unfolding stripped amount_value_def digs dw ff
    using parseFloat_decimal [OF ip ds(1)] by simp
qed

text \<open>
  What the function computes. It returns \<open>null\<close> exactly when the text holds no digit.
  Otherwise every match of the pattern is a grouped amount (one to three digits, groups
  of a comma and three digits, at most a dot and one or two digits), and the result is
  the value, commas removed, of the first match that is longest: every match before it
  is shorter, none after it is longer.
\<close>

lemma amount_is_first_longest_grouped_match:
  "(extractAmountFromHebrewText t = None \<longleftrightarrow> (\<forall>c\<in>set t. \<not> is_digit c))
   \<and> ((\<exists>c\<in>set t. is_digit c) \<longrightarrow>
        (\<exists>pre m post. all_matches 0 t = pre @ m # post \<and> grouped_amount m
           \<and> (\<forall>x\<in>set pre. grouped_amount x \<and> length x < length m)
           \<and> (\<forall>x\<in>set post. grouped_amount x \<and> length x \<le> length m)
           \<and> extractAmountFromHebrewText t = Some (double (amount_value m))))"
proof -
  have some: "\<exists>pre m post. all_matches 0 t = pre @ m # post \<and> grouped_amount m
           \<and> (\<forall>x\<in>set pre. grouped_amount x \<and> length x < length m)
           \<and> (\<forall>x\<in>set post. grouped_amount x \<and> length x \<le> length m)
           \<and> extractAmountFromHebrewText t = Some (double (amount_value m))"
    if d: "\<exists>c\<in>set t. is_digit c"
  proof -
    let ?ms = "all_matches 0 t"
    have ne: "?ms \<noteq> []" using d all_matches_empty [of 0 t] by auto
    have gr: "\<forall>m\<in>set ?ms. grouped_amount m" by (rule all_matches_grouped)
    then have "\<forall>m\<in>set ?ms. m \<noteq> []" using grouped_amount_nonempty by blast
    from longest_match_first [OF ne this]
    obtain pre post where p: "?ms = pre @ longest_match ?ms # post"
      "\<forall>x\<in>set pre. length x < length (longest_match ?ms)"
      "\<forall>x\<in>set post. length x \<le> length (longest_match ?ms)" by blast
    have mem: "longest_match ?ms \<in> set ?ms" "set pre \<subseteq> set ?ms" "set post \<subseteq> set ?ms"
      using p(1) by (metis in_set_conv_decomp, metis Un_iff set_append subsetI,
          metis Un_iff list.set_intros(2) set_append subsetI)
    have gm: "grouped_amount (longest_match ?ms)" using gr mem(1) by blast
    have t: "t \<noteq> []" using d by auto
    have "extractAmountFromHebrewText t = Some (double (amount_value (longest_match ?ms)))"
      using t ne grouped_amount_value [OF gm] double_not_NaN
      by (simp add: extractAmountFromHebrewText_def Let_def)
    with p gm gr mem(2,3) show ?thesis by blast
  qed
  have none: "extractAmountFromHebrewText t = None" if "\<forall>c\<in>set t. \<not> is_digit c"
    using that all_matches_empty [of 0 t] by (simp add: extractAmountFromHebrewText_def Let_def)
  from some none show ?thesis by (metis option.distinct(1))
qed

lemmas extract_eval =
  extractAmountFromHebrewText_def longest_match_def match_at_def grouped_alternative_def
  plain_alternative_def fraction_prefix_def one_or_two_digits_def parseFloat_def
  str_decimal_literal_def read_exponent_def scale10_def startsWith_def is_ws_def is_digit_def
  digits_val_def digit_in_def js_def Let_def charges_line_def

text \<open>
  The line of the Cal sheet, with a date before the amount: the result is the double
  of \<open>5259.19\<close>, the value of the match \<open>5,259.19\<close>.
\<close>

lemma charges_line_amount:
  "extractAmountFromHebrewText charges_line = Some (double 5259.19)"
  by (simp add: extract_eval double_not_NaN)

text \<open>The doubles of \<open>45.67\<close> and \<open>12345.67\<close> are not the same number.\<close>

lemma double_45_67_differs: "double (4567 / 100) \<noteq> double (1234567 / 100)"
  by (simp add: double_def binary_exponent_def round_half_even_def Let_def compute_bitlen)

text \<open>
  C9. The longest numeric substring of \<open>12345.67\<close> is the whole text. The pattern
  finds \<open>123\<close> and then \<open>45.67\<close>: its first alternative stops after three digits when
  no comma follows, and the alternatives written for digits without commas are never
  tried at a digit. The result is \<open>45.67\<close>; in \<open>Total 1234.56\<close> it is \<open>4.56\<close>.
\<close>

theorem amount_without_commas_is_cut:
  "all_matches 0 (js ''12345.67'') = [js ''123'', js ''45.67'']
   \<and> extractAmountFromHebrewText (js ''12345.67'') = Some (double 45.67)
   \<and> extractAmountFromHebrewText (js ''12345.67'') \<noteq> Some (double 12345.67)
   \<and> extractAmountFromHebrewText (js ''Total 1234.56'') = Some (double 4.56)"
  by (simp add: extract_eval double_not_NaN double_45_67_differs)

end
